theory Spec2Isabelle
  imports Main "HOL-Library.Sublist" "HOL-Library.AList"
begin

section \<open>absystool: a command-line client of the AbsysNET library catalogue\<close>

text \<open>
  The development embeds \<^verbatim>\<open>absystool.py\<close>: the class \<^verbatim>\<open>AbsysClient\<close> with its credentials
  file, its login handshake, the session check and the two page scrapers, and the command
  dispatcher at the end of the file.

  What the program touches outside itself is made a value: the credentials file, the lines
  typed at the terminal, the portal's answers, the calendar day and the printed output are
  the fields of a record \<open>world\<close> that every operation takes and returns. A Python exception
  is a value of the type \<open>exn\<close>; nothing in the program catches one, so a raised exception
  ends the run and the client object is lost with it, while the world stays as it was left.
\<close>

subsection \<open>Python strings and lists\<close>

text \<open>
  A Python \<^verbatim>\<open>str\<close> is a list of code points. The model keeps the code points below 256, one
  \<open>char\<close> each, so that the accented letter of \<^verbatim>\<open>Cerrar sesion\<close> is the single character \<open>0xF3\<close>.
\<close>

datatype exn =
    IndexError | KeyError | TypeError | ValueError | OverflowError | AttributeError
  | EOFError | JSONDecodeError | UnicodeDecodeError | RecursionError | FileNotFoundError
  | TransportError string | ParserError string

text \<open>\<^verbatim>\<open>xs[i]\<close> for a literal index \<open>i \<ge> 0\<close>.\<close>

definition item :: "'a list \<Rightarrow> nat \<Rightarrow> exn + 'a" where
  "item xs i = (if i < length xs then Inr (xs ! i) else Inl IndexError)"

text \<open>\<^verbatim>\<open>sub in s\<close>.\<close>

fun contains :: "string \<Rightarrow> string \<Rightarrow> bool" where
  "contains sub [] = (sub = [])"
| "contains sub (c # cs) = (prefix sub (c # cs) \<or> contains sub cs)"

text \<open>
  \<^verbatim>\<open>s.split(sep)\<close>: the pieces of \<open>s\<close> between the occurrences of \<open>sep\<close>, found from the left
  and not overlapping. The second argument collects the piece being read, in reverse.
  Python raises \<^verbatim>\<open>ValueError\<close> for an empty separator; every call of the program passes a
  literal that is not empty.
\<close>

function str_split_from :: "string \<Rightarrow> string \<Rightarrow> string \<Rightarrow> string list" where
  "str_split_from sep acc s =
     (if s = [] then [rev acc]
      else if sep \<noteq> [] \<and> prefix sep s
           then rev acc # str_split_from sep [] (drop (length sep) s)
      else str_split_from sep (hd s # acc) (tl s))"
  by pat_completeness auto
termination
  by (relation "measure (\<lambda>(sep, acc, s). length s)") auto

definition str_split :: "string \<Rightarrow> string \<Rightarrow> string list" where
  "str_split sep s = str_split_from sep [] s"

text \<open>\<^verbatim>\<open>s.replace(old, new)\<close> for a pattern \<open>old\<close> that is not empty.\<close>

function str_replace :: "string \<Rightarrow> string \<Rightarrow> string \<Rightarrow> string" where
  "str_replace old new s =
     (if s = [] then []
      else if old \<noteq> [] \<and> prefix old s
           then new @ str_replace old new (drop (length old) s)
      else hd s # str_replace old new (tl s))"
  by pat_completeness auto
termination
  by (relation "measure (\<lambda>(old, new, s). length s)") auto

text \<open>
  The characters \<^verbatim>\<open>str.isspace\<close> accepts below 256: tab to carriage return, the four
  separators \<open>0x1C\<close> to \<open>0x1F\<close>, the space, \<open>0x85\<close> and \<open>0xA0\<close>.
\<close>

definition is_space :: "char \<Rightarrow> bool" where
  "is_space c =
     (let n = (of_char c :: nat)
      in (9 \<le> n \<and> n \<le> 13) \<or> (28 \<le> n \<and> n \<le> 32) \<or> n = 133 \<or> n = 160)"

text \<open>\<^verbatim>\<open>s.strip()\<close>.\<close>

definition str_strip :: "string \<Rightarrow> string" where
  "str_strip s = rev (dropWhile is_space (rev (dropWhile is_space s)))"

definition is_digit :: "char \<Rightarrow> bool" where
  "is_digit c = (let n = (of_char c :: nat) in 48 \<le> n \<and> n \<le> 57)"

definition digit_val :: "char \<Rightarrow> int" where
  "digit_val c = int (of_char c) - 48"

text \<open>
  The digits of \<^verbatim>\<open>int(s, 10)\<close> after the sign: decimal digits, with single underscores
  allowed between two digits. The flag says that the character before was a digit.
\<close>

fun digits_from :: "int \<Rightarrow> bool \<Rightarrow> string \<Rightarrow> int option" where
  "digits_from acc after_digit [] = (if after_digit then Some acc else None)"
| "digits_from acc after_digit (c # cs) =
     (if is_digit c then digits_from (acc * 10 + digit_val c) True cs
      else if c = CHR ''_'' \<and> after_digit then digits_from acc False cs
      else None)"

text \<open>
  The white space \<^verbatim>\<open>int\<close> drops around a number is narrower than that of \<^verbatim>\<open>strip\<close>: tab
  to carriage return, the space, \<open>0x85\<close> and \<open>0xA0\<close>, and not the separators \<open>0x1C\<close> to
  \<open>0x1F\<close>.
\<close>

definition is_int_space :: "char \<Rightarrow> bool" where
  "is_int_space c =
     (let n = (of_char c :: nat)
      in (9 \<le> n \<and> n \<le> 13) \<or> n = 32 \<or> n = 133 \<or> n = 160)"

definition int_strip :: "string \<Rightarrow> string" where
  "int_strip s = rev (dropWhile is_int_space (rev (dropWhile is_int_space s)))"

text \<open>
  \<^verbatim>\<open>int(s, 10)\<close>, as Python 3.11 has it: white space around the number is dropped, one
  sign may lead, and anything else raises \<^verbatim>\<open>ValueError\<close>; so does a number of more than
  4300 digits, the limit the interpreter starts with.
\<close>

definition py_int :: "string \<Rightarrow> exn + int" where
  "py_int s =
     (let t = int_strip s;
          (neg, body) = (case t of
                           c # cs \<Rightarrow> if c = CHR ''-'' then (True, cs)
                                      else if c = CHR ''+'' then (False, cs)
                                      else (False, t)
                         | [] \<Rightarrow> (False, t))
      in case digits_from 0 False body of
           None \<Rightarrow> Inl ValueError
         | Some n \<Rightarrow>
             if 4300 < length (filter is_digit body) then Inl ValueError
             else Inr (if neg then - n else n))"

text \<open>\<^verbatim>\<open>str(n)\<close> for an integer, as \<^verbatim>\<open>format\<close> prints it.\<close>

fun str_nat :: "nat \<Rightarrow> string" where
  "str_nat n =
     (if n < 10 then [char_of (48 + n)]
      else str_nat (n div 10) @ [char_of (48 + n mod 10)])"

definition str_int :: "int \<Rightarrow> string" where
  "str_int i = (if i < 0 then CHR ''-'' # str_nat (nat (- i)) else str_nat (nat i))"

subsection \<open>Calendar dates\<close>

text \<open>
  \<^verbatim>\<open>datetime.date\<close>: the constructor takes C integers and accepts the years 1 to 9999 of
  the proleptic Gregorian calendar; the difference of two dates counts days, through the
  ordinal of each (1 for the first of January of year 1).
\<close>

record date =
  year :: int
  month :: int
  day :: int

definition is_leap :: "int \<Rightarrow> bool" where
  "is_leap y = (y mod 4 = 0 \<and> (y mod 100 \<noteq> 0 \<or> y mod 400 = 0))"

definition days_in_month :: "int \<Rightarrow> int \<Rightarrow> int" where
  "days_in_month y m =
     (if m = 2 then (if is_leap y then 29 else 28)
      else if m = 4 \<or> m = 6 \<or> m = 9 \<or> m = 11 then 30
      else 31)"

definition days_before_year :: "int \<Rightarrow> int" where
  "days_before_year y =
     (let p = y - 1 in p * 365 + p div 4 - p div 100 + p div 400)"

definition days_before_month :: "int \<Rightarrow> int \<Rightarrow> int" where
  "days_before_month y m = (\<Sum>k \<leftarrow> [1 ..< nat m]. days_in_month y (int k))"

definition toordinal :: "date \<Rightarrow> int" where
  "toordinal d = days_before_year (year d) + days_before_month (year d) (month d) + day d"

definition fits_c_int :: "int \<Rightarrow> bool" where
  "fits_c_int i = (- (2 ^ 31) \<le> i \<and> i < 2 ^ 31)"

definition make_date :: "int \<Rightarrow> int \<Rightarrow> int \<Rightarrow> exn + date" where
  "make_date y m d =
     (if \<not> (fits_c_int y \<and> fits_c_int m \<and> fits_c_int d) then Inl OverflowError
      else if 1 \<le> y \<and> y \<le> 9999 \<and> 1 \<le> m \<and> m \<le> 12 \<and> 1 \<le> d \<and> d \<le> days_in_month y m
           then Inr \<lparr>year = y, month = m, day = d\<rparr>
      else Inl ValueError)"

text \<open>\<^verbatim>\<open>(a - b).days\<close>.\<close>

definition days_between :: "date \<Rightarrow> date \<Rightarrow> int" where
  "days_between a b = toordinal a - toordinal b"

subsection \<open>Documents of the HTML library\<close>

text \<open>
  \<^verbatim>\<open>lxml\<close> turns the text of a page into a tree of elements; an element has a tag, its
  attributes, the text before its first child (\<^verbatim>\<open>None\<close> when there is none) and its
  children. The parser itself is not part of the program: it is the field \<open>fromstring\<close> of
  the world below.
\<close>

datatype element =
  Element (tag: string) (attrib: "(string \<times> string) list") (el_text: "string option")
    (getchildren: "element list")

text \<open>The elements of a tree in document order, the root first.\<close>

fun iter :: "element \<Rightarrow> element list" where
  "iter (Element t a x cs) = Element t a x cs # concat (map iter cs)"

text \<open>
  \<^verbatim>\<open>tree.xpath('//TAG[@KEY="VALUE"]/@NAME')\<close>: the values of the attribute \<open>NAME\<close> of the
  elements \<open>TAG\<close> of the document that carry \<open>KEY="VALUE"\<close>, in document order.
\<close>

definition xpath_attr :: "string \<Rightarrow> string \<Rightarrow> string \<Rightarrow> string \<Rightarrow> element \<Rightarrow> string list" where
  "xpath_attr tg key val name tree =
     List.map_filter (\<lambda>e. map_of (attrib e) name)
       (filter (\<lambda>e. tag e = tg \<and> map_of (attrib e) key = Some val) (iter tree))"

text \<open>
  \<^verbatim>\<open>tree.xpath('//form[@id="abnformpre"]/table/tr')\<close>: the rows \<^verbatim>\<open>tr\<close> that are children of
  a \<^verbatim>\<open>table\<close> that is a child of a form with that identifier, in document order. The two
  flags say that the parent is such a form and that the parent is such a table.
\<close>

fun xpath_rows_in :: "bool \<Rightarrow> bool \<Rightarrow> element \<Rightarrow> element list" where
  "xpath_rows_in in_form in_table (Element t a x cs) =
     (if t = ''tr'' \<and> in_table then [Element t a x cs] else []) @
     concat (map (xpath_rows_in (t = ''form'' \<and> map_of a ''id'' = Some ''abnformpre'')
                                (t = ''table'' \<and> in_form)) cs)"

definition xpath_rows :: "element \<Rightarrow> element list" where
  "xpath_rows tree = xpath_rows_in False False tree"

subsection \<open>The world of the program\<close>

text \<open>
  \<^verbatim>\<open>json.load\<close> returns a Python value built from these cases; an object is a dictionary,
  kept as a list of keys and values in the order of insertion.
\<close>

datatype json =
    JNull | JBool bool | JInt int | JFloat string | JString string
  | JArray "json list" | JObject "(string \<times> json) list"

text \<open>
  The credentials file \<^verbatim>\<open>~/.config/absystool/authid\<close>. Reading and the JSON codec are
  libraries: the model keeps a file by what \<^verbatim>\<open>open\<close> and \<^verbatim>\<open>json.load\<close> make of it. Either
  \<^verbatim>\<open>json.load\<close> returns a value, the one \<^verbatim>\<open>json.dump\<close> wrote, or the file is refused: its
  bytes are no text in the encoding of the locale, the text is no JSON, an integer in it
  has more than 4300 digits, or it nests deeper than the interpreter recurses.

  The path is free or a regular file the user may read and write. A directory or a
  protected file there makes \<^verbatim>\<open>open\<close> raise an \<^verbatim>\<open>OSError\<close> in \<^verbatim>\<open>_load_credentials\<close> and in
  \<^verbatim>\<open>_save_credentials\<close> alike, and is left out of the model.
\<close>

datatype refusal = NotText | NotJSON | TooManyDigits | TooDeep

definition refusal_exn :: "refusal \<Rightarrow> exn" where
  "refusal_exn r =
     (case r of
        NotText \<Rightarrow> UnicodeDecodeError
      | NotJSON \<Rightarrow> JSONDecodeError
      | TooManyDigits \<Rightarrow> ValueError
      | TooDeep \<Rightarrow> RecursionError)"

datatype file_content = Parsed json | Refused refusal

datatype request = GET string | POST string "(string \<times> string) list"

record response =
  res_text :: string
  res_url :: string

text \<open>
  What \<^verbatim>\<open>print\<close> writes: a line, a line made by \<^verbatim>\<open>format\<close> from values read in the
  credentials file, the usage text \<^verbatim>\<open>__doc__\<close>, and the table of loans with its rows.
\<close>

datatype printed =
    Line string
  | Formatted string "json list"
  | Usage
  | Table "string list" "(string \<times> date \<times> string) list"

text \<open>
  The portal answers a request knowing the requests made before (\<open>sent\<close>, the latest
  first), or the transport raises. The terminal gives the lines the user types, one after
  the other, \<open>None\<close> when the input has ended; \<open>nread\<close> counts the lines read so far.

  The interpreter bounds the depth of nested calls (1000 frames unless the run sets
  another limit): \<open>frames_left\<close> is the number of calls of \<^verbatim>\<open>login\<close> from within \<^verbatim>\<open>login\<close>
  it has room for when a command calls \<^verbatim>\<open>login\<close>, about 990 at that limit. The error
  is raised where the frame is missing. The model has it at the call of \<^verbatim>\<open>login\<close> for which
  no room is left, and does not tell apart the few frames of the callers and of the
  libraries an attempt calls: with these counted, the last attempt ends inside a library
  call, some calls earlier.
\<close>

record world =
  authid_file :: "file_content option"
  server :: "request list \<Rightarrow> request \<Rightarrow> exn + response"
  sent :: "request list"
  fromstring :: "string \<Rightarrow> exn + element"
  typed :: "nat \<Rightarrow> string option"
  nread :: nat
  today :: date
  stdout :: "printed list"
  frames_left :: nat

definition print :: "printed \<Rightarrow> world \<Rightarrow> world" where
  "print x w = w\<lparr>stdout := stdout w @ [x]\<rparr>"

text \<open>\<^verbatim>\<open>input\<close> and \<^verbatim>\<open>getpass.getpass\<close> read one line; both raise \<^verbatim>\<open>EOFError\<close> at the end.\<close>

definition read_line :: "world \<Rightarrow> (exn + string) \<times> world" where
  "read_line w =
     (case typed w (nread w) of
        None \<Rightarrow> (Inl EOFError, w)
      | Some s \<Rightarrow> (Inr s, w\<lparr>nread := Suc (nread w)\<rparr>))"

text \<open>\<^verbatim>\<open>requests.get\<close> and \<^verbatim>\<open>requests.post\<close>.\<close>

definition http :: "request \<Rightarrow> world \<Rightarrow> (exn + response) \<times> world" where
  "http rq w = (server w (sent w) rq, w\<lparr>sent := rq # sent w\<rparr>)"

subsection \<open>The client and its credentials\<close>

definition ABNETSYS_BASE :: string where
  "ABNETSYS_BASE = ''https://catalogobiblioteca.uclm.es/cgi-bin/abnetopac''"

record client =
  creds :: "(string \<times> json) list"
  base :: string

text \<open>\<^verbatim>\<open>AbsysClient()\<close>.\<close>

definition new_client :: client where
  "new_client = \<lparr>creds = [], base = ABNETSYS_BASE\<rparr>"

text \<open>
  \<^verbatim>\<open>_load_credentials\<close>. A file that is not there leaves the client as it is. Otherwise
  \<^verbatim>\<open>open\<close> and \<^verbatim>\<open>json.load\<close> raise on a file they refuse, and \<^verbatim>\<open>self._creds['auth_id']\<close> raises
  \<^verbatim>\<open>TypeError\<close> on a value that is not a dictionary and \<^verbatim>\<open>KeyError\<close> on a dictionary
  without the key; appending a value that is not a string to the base address raises
  \<^verbatim>\<open>TypeError\<close> again.
\<close>

definition load_credentials :: "client \<Rightarrow> world \<Rightarrow> exn + client" where
  "load_credentials self w =
     (case authid_file w of
        None \<Rightarrow> Inr self
      | Some (Refused r) \<Rightarrow> Inl (refusal_exn r)
      | Some (Parsed (JObject d)) \<Rightarrow>
          (case map_of d ''auth_id'' of
             None \<Rightarrow> Inl KeyError
           | Some (JString a) \<Rightarrow> Inr (self\<lparr>creds := d, base := ABNETSYS_BASE @ ''/'' @ a\<rparr>)
           | Some _ \<Rightarrow> Inl TypeError)
      | Some (Parsed _) \<Rightarrow> Inl TypeError)"

text \<open>
  \<^verbatim>\<open>_save_credentials\<close>: both keys are set in the dictionary the client holds, the whole
  dictionary is written over the file, and the base address follows the new \<open>auth_id\<close>.
  The directory of the file can always be made and the file written.
\<close>

definition save_credentials :: "string \<Rightarrow> string \<Rightarrow> client \<Rightarrow> world \<Rightarrow> client \<times> world" where
  "save_credentials auth_id user_id self w =
     (let d = AList.update ''user_id'' (JString user_id)
                (AList.update ''auth_id'' (JString auth_id) (creds self))
      in (self\<lparr>creds := d, base := ABNETSYS_BASE @ ''/'' @ auth_id\<rparr>,
          w\<lparr>authid_file := Some (Parsed (JObject d))\<rparr>))"

text \<open>\<^verbatim>\<open>logout\<close>: \<^verbatim>\<open>os.unlink\<close> raises when the file is not there.\<close>

definition logout :: "client \<Rightarrow> world \<Rightarrow> (exn + client) \<times> world" where
  "logout self w =
     (if map_of (creds self) ''auth_id'' = None
      then (Inr self, print (Line ''not authenticated'') w)
      else (case authid_file w of
              None \<Rightarrow> (Inl FileNotFoundError, w)
            | Some f \<Rightarrow> (Inr self, w\<lparr>authid_file := None\<rparr>)))"

subsection \<open>Logging in\<close>

text \<open>A step that may raise, followed by one that uses its value.\<close>

definition and_then :: "exn + 'a \<Rightarrow> ('a \<Rightarrow> exn + 'b) \<Rightarrow> exn + 'b" where
  "and_then r f = (case r of Inl e \<Rightarrow> Inl e | Inr v \<Rightarrow> f v)"

text \<open>
  The path the index page redirects to:
  \<^verbatim>\<open>tree.xpath('//meta[@http-equiv="Refresh"]/@content')[0].split('URL=')[1].split('?')[0]\<close>
  without \<^verbatim>\<open>/cgi-bin/abnetopac\<close>.
\<close>

definition refresh_path :: "element \<Rightarrow> exn + string" where
  "refresh_path tree =
     and_then (item (xpath_attr ''meta'' ''http-equiv'' ''Refresh'' ''content'' tree) 0)
       (\<lambda>content. and_then (item (str_split ''URL='' content) 1)
          (\<lambda>target. and_then (item (str_split ''?'' target) 0)
             (\<lambda>path. Inr (str_replace ''/cgi-bin/abnetopac'' [] path))))"

text \<open>The literal \<^verbatim>\<open>'Cerrar sesion '\<close>, its sixth letter of the second word accented.\<close>

definition close_session :: string where
  "close_session = ''Cerrar sesi'' @ [CHR 0xF3] @ ''n ''"

text \<open>
  The name of the reader:
  \<^verbatim>\<open>tree.xpath('//a[@id="lecidentify"]/@title')[0].split('Cerrar sesion ')[1]\<close>.
\<close>

definition session_name :: "element \<Rightarrow> exn + string" where
  "session_name tree =
     and_then (item (xpath_attr ''a'' ''id'' ''lecidentify'' ''title'' tree) 0)
       (\<lambda>title. item (str_split close_session title) 1)"

text \<open>The session token: \<^verbatim>\<open>res.url.split('abnetopac/')[1].split('/NT1')[0]\<close>.\<close>

definition session_token :: "string \<Rightarrow> exn + string" where
  "session_token url =
     and_then (item (str_split ''abnetopac/'' url) 1)
       (\<lambda>rest. item (str_split ''/NT1'' rest) 0)"

text \<open>
  One attempt of \<^verbatim>\<open>login\<close>, up to the answer to the posted form: the two prompts, the index
  page, the path it redirects to, and the form sent there.
\<close>

definition login_attempt :: "client \<Rightarrow> world \<Rightarrow> (exn + string \<times> response \<times> client) \<times> world" where
  "login_attempt self w =
     (case read_line w of
        (Inl e, w1) \<Rightarrow> (Inl e, w1)
      | (Inr user, w1) \<Rightarrow>
     (case read_line w1 of
        (Inl e, w2) \<Rightarrow> (Inl e, w2)
      | (Inr password, w2) \<Rightarrow>
     (let self1 = self\<lparr>base := ABNETSYS_BASE\<rparr> in
      case http (GET (base self1)) w2 of
        (Inl e, w3) \<Rightarrow> (Inl e, w3)
      | (Inr index, w3) \<Rightarrow>
     (case and_then (fromstring w3 (res_text index)) refresh_path of
        Inl e \<Rightarrow> (Inl e, w3)
      | Inr path \<Rightarrow>
     (case http (POST (base self1 @ path @ ''/NT1'')
                   [(''FBC'', ''316''), (''NAC'', ''317''), (''ACC'', ''201''),
                    (''leid'', user), (''lepass'', password)]) w3 of
        (Inl e, w4) \<Rightarrow> (Inl e, w4)
      | (Inr res, w4) \<Rightarrow> (Inr (user, res, self1), w4))))))"

text \<open>The branch of \<^verbatim>\<open>login\<close> taken when the answer does not say \<^verbatim>\<open>incorrecta\<close>.\<close>

definition login_finish :: "string \<Rightarrow> response \<Rightarrow> client \<Rightarrow> world \<Rightarrow> (exn + client) \<times> world" where
  "login_finish user res self w =
     (case and_then (fromstring w (res_text res)) session_name of
        Inl e \<Rightarrow> (Inl e, w)
      | Inr name \<Rightarrow>
          (let w1 = print (Line (''successfully authenticated as '' @ user @ '' ('' @ name @ '')'')) w
           in case session_token (res_url res) of
                Inl e \<Rightarrow> (Inl e, w1)
              | Inr auth_id \<Rightarrow>
                  (case save_credentials auth_id user self w1 of
                     (self2, w2) \<Rightarrow> (Inr self2, w2))))"

text \<open>
  \<^verbatim>\<open>login\<close> calls itself when the answer says \<^verbatim>\<open>incorrecta\<close>. The program does not count
  the calls, the interpreter does: each call nests one frame deeper, and the call for
  which no room is left raises \<^verbatim>\<open>RecursionError\<close>. The first argument is the room left,
  in calls.
\<close>

fun login_nested :: "nat \<Rightarrow> client \<Rightarrow> world \<Rightarrow> (exn + client) \<times> world" where
  "login_nested room self w =
     (case login_attempt self w of
        (Inl e, w1) \<Rightarrow> (Inl e, w1)
      | (Inr (user, res, self1), w1) \<Rightarrow>
          if contains ''incorrecta'' (res_text res)
          then (case room of
                  0 \<Rightarrow> (Inl RecursionError, w1)
                | Suc fewer \<Rightarrow> login_nested fewer self1 w1)
          else login_finish user res self1 w1)"

text \<open>\<^verbatim>\<open>login\<close>, as a command or the session check calls it.\<close>

definition login :: "client \<Rightarrow> world \<Rightarrow> (exn + client) \<times> world" where
  "login self w = login_nested (frames_left w) self w"

subsection \<open>The session check and the two pages\<close>

text \<open>\<^verbatim>\<open>_ensure_auth\<close>.\<close>

definition ensure_auth :: "client \<Rightarrow> world \<Rightarrow> (exn + client) \<times> world" where
  "ensure_auth self w =
     (case load_credentials self w of
        Inl e \<Rightarrow> (Inl e, w)
      | Inr self1 \<Rightarrow>
          if map_of (creds self1) ''auth_id'' = None then login self1 w
          else (case http (GET (base self1)) w of
                  (Inl e, w1) \<Rightarrow> (Inl e, w1)
                | (Inr probe, w1) \<Rightarrow>
                    if contains ''/abnetopac/timeout.html'' (res_text probe)
                    then login (self1\<lparr>creds := []\<rparr>) (print (Line ''Previous session expired'') w1)
                    else (Inr self1, w1)))"

text \<open>\<^verbatim>\<open>status\<close>, after the session check.\<close>

definition status_page :: "client \<Rightarrow> world \<Rightarrow> (exn + client) \<times> world" where
  "status_page self w =
     (case http (GET (base self @ ''/NT1?ACC=101'')) w of
        (Inl e, w1) \<Rightarrow> (Inl e, w1)
      | (Inr res, w1) \<Rightarrow>
          (case and_then (fromstring w1 (res_text res)) session_name of
             Inl e \<Rightarrow> (Inl e, w1)
           | Inr name \<Rightarrow>
               (case map_of (creds self) ''user_id'' of
                  None \<Rightarrow> (Inl KeyError, w1)
                | Some u \<Rightarrow>
                    (Inr self, print (Formatted ''authenticated as {} ({})'' [u, JString name]) w1))))"

definition status :: "client \<Rightarrow> world \<Rightarrow> (exn + client) \<times> world" where
  "status self w =
     (case ensure_auth self w of
        (Inl e, w1) \<Rightarrow> (Inl e, w1)
      | (Inr self1, w1) \<Rightarrow> status_page self1 w1)"

text \<open>
  The body of the loop of \<^verbatim>\<open>list\<close>: the row of the printed table made from one row of
  the page. \<^verbatim>\<open>.text.strip()\<close> raises \<^verbatim>\<open>AttributeError\<close> on a cell without text.
\<close>

definition cell_text :: "element list \<Rightarrow> nat \<Rightarrow> exn + string" where
  "cell_text cells i =
     and_then (item cells i)
       (\<lambda>c. case el_text c of None \<Rightarrow> Inl AttributeError | Some t \<Rightarrow> Inr (str_strip t))"

text \<open>
  The date of the fourth cell, from its stripped text: the pieces between the slashes,
  the third, the second and the first read as integers in this order, and the date made
  of them.
\<close>

definition due_date :: "string \<Rightarrow> exn + date" where
  "due_date cell =
     (let parts = str_split ''/'' cell in
      and_then (and_then (item parts 2) py_int)
        (\<lambda>y. and_then (and_then (item parts 1) py_int)
           (\<lambda>m. and_then (and_then (item parts 0) py_int)
              (\<lambda>d. make_date y m d))))"

definition loan_row :: "date \<Rightarrow> element \<Rightarrow> exn + string \<times> date \<times> string" where
  "loan_row now loan =
     and_then (cell_text (getchildren loan) 2)
       (\<lambda>title. and_then (cell_text (getchildren loan) 3)
          (\<lambda>cell. and_then (due_date cell)
             (\<lambda>due. Inr (title, due, str_int (days_between due now) @ '' day(s)''))))"

fun loan_rows :: "date \<Rightarrow> element list \<Rightarrow> exn + (string \<times> date \<times> string) list" where
  "loan_rows now [] = Inr []"
| "loan_rows now (loan # loans) =
     and_then (loan_row now loan)
       (\<lambda>r. and_then (loan_rows now loans) (\<lambda>rs. Inr (r # rs)))"

text \<open>\<^verbatim>\<open>list\<close>, after the session check; \<^verbatim>\<open>[1:]\<close> drops the first row found.\<close>

definition loans_page :: "client \<Rightarrow> world \<Rightarrow> (exn + client) \<times> world" where
  "loans_page self w =
     (case http (GET (base self @ ''/NT29?ACC=210'')) w of
        (Inl e, w1) \<Rightarrow> (Inl e, w1)
      | (Inr res, w1) \<Rightarrow>
          (case fromstring w1 (res_text res) of
             Inl e \<Rightarrow> (Inl e, w1)
           | Inr tree \<Rightarrow>
               (case loan_rows (today w1) (drop 1 (xpath_rows tree)) of
                  Inl e \<Rightarrow> (Inl e, w1)
                | Inr rows \<Rightarrow>
                    (Inr self, print (Table [''Title'', ''Due date'', ''Remaining''] rows) w1))))"

definition list_loans :: "client \<Rightarrow> world \<Rightarrow> (exn + client) \<times> world" where
  "list_loans self w =
     (case ensure_auth self w of
        (Inl e, w1) \<Rightarrow> (Inl e, w1)
      | (Inr self1, w1) \<Rightarrow> loans_page self1 w1)"

subsection \<open>The command dispatcher\<close>

text \<open>The block under \<^verbatim>\<open>if __name__ == '__main__'\<close>, given \<^verbatim>\<open>sys.argv\<close>.\<close>

definition main :: "string list \<Rightarrow> world \<Rightarrow> (exn + client) \<times> world" where
  "main argv w =
     (if length argv < 2 then (Inr new_client, print Usage w)
      else if argv ! 1 = ''login'' then login new_client w
      else if argv ! 1 = ''logout'' then logout new_client w
      else if argv ! 1 = ''status'' then status new_client w
      else if argv ! 1 = ''list'' then list_loans new_client w
      else (Inr new_client, print Usage w))"

subsection \<open>Notions the statements use\<close>

text \<open>
  The state after \<open>n\<close> attempts of \<^verbatim>\<open>login\<close> that the portal answered with \<^verbatim>\<open>incorrecta\<close>,
  when the first \<open>n\<close> attempts went that way.
\<close>

fun failed_attempts :: "nat \<Rightarrow> client \<Rightarrow> world \<Rightarrow> (client \<times> world) option" where
  "failed_attempts 0 self w = Some (self, w)"
| "failed_attempts (Suc n) self w =
     (case login_attempt self w of
        (Inl e, w1) \<Rightarrow> None
      | (Inr (user, res, self1), w1) \<Rightarrow>
          if contains ''incorrecta'' (res_text res) then failed_attempts n self1 w1 else None)"

text \<open>
  An attempt that ends \<^verbatim>\<open>login\<close> with the result \<open>r\<close>: it raises, or its answer does not
  say \<^verbatim>\<open>incorrecta\<close> and the rest of \<^verbatim>\<open>login\<close> gives \<open>r\<close>.
\<close>

definition last_attempt :: "client \<Rightarrow> world \<Rightarrow> (exn + client) \<times> world \<Rightarrow> bool" where
  "last_attempt self w r =
     (case login_attempt self w of
        (Inl e, w1) \<Rightarrow> r = (Inl e, w1)
      | (Inr (user, res, self1), w1) \<Rightarrow>
          \<not> contains ''incorrecta'' (res_text res) \<and> r = login_finish user res self1 w1)"

text \<open>A file that holds a JSON object whose \<open>auth_id\<close> is a string.\<close>

definition loadable :: "file_content \<Rightarrow> bool" where
  "loadable f =
     (case f of
        Parsed (JObject d) \<Rightarrow> (case map_of d ''auth_id'' of Some (JString a) \<Rightarrow> True | _ \<Rightarrow> False)
      | _ \<Rightarrow> False)"

text \<open>A credentials record with both fields, each a string.\<close>

definition both_fields :: "(string \<times> json) list \<Rightarrow> bool" where
  "both_fields d =
     (case (map_of d ''auth_id'', map_of d ''user_id'') of
        (Some (JString a), Some (JString u)) \<Rightarrow> True
      | _ \<Rightarrow> False)"

text \<open>The persisted record does not exist, or it has both fields.\<close>

definition record_whole :: "world \<Rightarrow> bool" where
  "record_whole w =
     (case authid_file w of
        None \<Rightarrow> True
      | Some (Parsed (JObject d)) \<Rightarrow> both_fields d
      | Some _ \<Rightarrow> False)"

text \<open>
  The nodes \<^verbatim>\<open>login\<close> and \<^verbatim>\<open>status\<close> expect, said of the document and not of the
  query: the first \<^verbatim>\<open>meta\<close> element with \<^verbatim>\<open>http-equiv="Refresh"\<close> and a \<^verbatim>\<open>content\<close>, and the
  first anchor \<^verbatim>\<open>lecidentify\<close> with a \<^verbatim>\<open>title\<close>.
\<close>

definition nodes_with :: "string \<Rightarrow> string \<Rightarrow> string \<Rightarrow> string \<Rightarrow> element \<Rightarrow> element list" where
  "nodes_with tg key val name tree =
     filter (\<lambda>e. tag e = tg \<and> map_of (attrib e) key = Some val \<and> map_of (attrib e) name \<noteq> None)
       (iter tree)"

definition refresh_missing :: "element \<Rightarrow> bool" where
  "refresh_missing tree =
     (case nodes_with ''meta'' ''http-equiv'' ''Refresh'' ''content'' tree of
        [] \<Rightarrow> True
      | e # es \<Rightarrow> \<not> contains ''URL='' (the (map_of (attrib e) ''content'')))"

definition anchor_missing :: "element \<Rightarrow> bool" where
  "anchor_missing tree =
     (case nodes_with ''a'' ''id'' ''lecidentify'' ''title'' tree of
        [] \<Rightarrow> True
      | e # es \<Rightarrow> \<not> contains close_session (the (map_of (attrib e) ''title'')))"

text \<open>
  Two ways a row of the loans page can be malformed: fewer than four cells, or four
  cells with text whose fourth, stripped, has fewer than two slashes (as \<^verbatim>\<open>31-02-2024\<close>).
\<close>

definition short_row :: "element \<Rightarrow> bool" where
  "short_row row = (length (getchildren row) < 4)"

definition few_slashes :: "element \<Rightarrow> bool" where
  "few_slashes row =
     (case getchildren row of
        c1 # c2 # c3 # c4 # cs \<Rightarrow>
          (case (el_text c3, el_text c4) of
             (Some t3, Some t4) \<Rightarrow> count_list (str_strip t4) CHR ''/'' < 2
           | _ \<Rightarrow> False)
      | _ \<Rightarrow> False)"

text \<open>The exception a row with fewer than four cells ends the loop with.\<close>

definition short_row_error :: "element \<Rightarrow> exn" where
  "short_row_error row =
     (case getchildren row of
        [c1, c2, c3] \<Rightarrow> (case el_text c3 of None \<Rightarrow> AttributeError | Some t \<Rightarrow> IndexError)
      | _ \<Rightarrow> IndexError)"

text \<open>
  What is wrong with a row, told from the row alone: \<open>None\<close> when nothing is. The row
  needs a third cell with text and a fourth with text; the stripped text of the fourth
  needs three fields between slashes, day, month and year, each an integer for \<^verbatim>\<open>int\<close>,
  that \<^verbatim>\<open>date\<close> accepts. What follows a third slash does not count.
\<close>

definition date_fields :: "string \<Rightarrow> (string \<times> string \<times> string) option" where
  "date_fields cell =
     (case str_split ''/'' cell of
        d # m # y # rest \<Rightarrow> Some (d, m, y)
      | _ \<Rightarrow> None)"

definition date_cell_error :: "string \<Rightarrow> exn option" where
  "date_cell_error cell =
     (case date_fields cell of
        None \<Rightarrow> Some IndexError
      | Some (d, m, y) \<Rightarrow>
          (case (py_int y, py_int m, py_int d) of
             (Inr yy, Inr mm, Inr dd) \<Rightarrow>
               (case make_date yy mm dd of Inl e \<Rightarrow> Some e | Inr accepted \<Rightarrow> None)
           | _ \<Rightarrow> Some ValueError))"

definition row_error :: "element \<Rightarrow> exn option" where
  "row_error row =
     (case getchildren row of
        c1 # c2 # c3 # cs \<Rightarrow>
          (case el_text c3 of
             None \<Rightarrow> Some AttributeError
           | Some t3 \<Rightarrow>
               (case cs of
                  [] \<Rightarrow> Some IndexError
                | c4 # cs' \<Rightarrow>
                    (case el_text c4 of
                       None \<Rightarrow> Some AttributeError
                     | Some t4 \<Rightarrow> date_cell_error (str_strip t4))))
      | _ \<Rightarrow> Some IndexError)"

text \<open>
  The loan record as the specification words it. A date string \<^verbatim>\<open>DD/MM/YYYY\<close> is two
  digits, a slash, two digits, a slash and four digits that name a day of the calendar.
\<close>

definition number :: "string \<Rightarrow> int" where
  "number ds = foldl (\<lambda>n c. n * 10 + digit_val c) 0 ds"

fun ddmmyyyy :: "string \<Rightarrow> date option" where
  "ddmmyyyy [d1, d2, s1, m1, m2, s2, y1, y2, y3, y4] =
     (if list_all is_digit [d1, d2, m1, m2, y1, y2, y3, y4] \<and> s1 = CHR ''/'' \<and> s2 = CHR ''/''
      then (case make_date (number [y1, y2, y3, y4]) (number [m1, m2]) (number [d1, d2]) of
              Inl e \<Rightarrow> None
            | Inr d \<Rightarrow> Some d)
      else None)"
| "ddmmyyyy s = None"

record loan =
  title :: string
  due :: date
  remaining_days :: int

definition spec_loan :: "date \<Rightarrow> element \<Rightarrow> loan option" where
  "spec_loan now row =
     (case getchildren row of
        c1 # c2 # c3 # c4 # cs \<Rightarrow>
          (case (el_text c3, el_text c4) of
             (Some t3, Some t4) \<Rightarrow>
               map_option
                 (\<lambda>d. \<lparr>title = str_strip t3, due = d, remaining_days = days_between d now\<rparr>)
                 (ddmmyyyy (str_strip t4))
           | _ \<Rightarrow> None)
      | _ \<Rightarrow> None)"

text \<open>The row of the printed table that shows a loan record.\<close>

definition table_row :: "loan \<Rightarrow> string \<times> date \<times> string" where
  "table_row l = (title l, due l, str_int (remaining_days l) @ '' day(s)'')"

subsection \<open>An example portal\<close>

definition index_page :: element where
  "index_page =
     Element ''html'' [] None
       [Element ''head'' [] None
          [Element ''meta'' [(''http-equiv'', ''Refresh''),
                             (''content'', ''0;URL=/cgi-bin/abnetopac/O7/ID1?ACC=101'')] None []]]"

definition reader_page :: element where
  "reader_page =
     Element ''html'' [] None
       [Element ''body'' [] None
          [Element ''a'' [(''id'', ''lecidentify''), (''title'', close_session @ ''Jane Doe'')]
             (Some ''Jane'') []]]"

definition blank_page :: element where
  "blank_page = Element ''html'' [] None []"

definition td :: "string \<Rightarrow> element" where
  "td s = Element ''td'' [] (Some s) []"

definition loans_table :: "element list \<Rightarrow> element" where
  "loans_table rows =
     Element ''html'' [] None
       [Element ''body'' [] None
          [Element ''form'' [(''id'', ''abnformpre'')] None
             [Element ''table'' [] None
                (Element ''tr'' [] None [td ''No'', td ''Code'', td ''Title'', td ''Due''] # rows)]]]"

definition quijote_row :: element where
  "quijote_row = Element ''tr'' [] None [td ''1'', td ''B1'', td '' Don Quijote '', td ''01/01/2024'']"

definition celestina_row :: element where
  "celestina_row = Element ''tr'' [] None [td ''2'', td ''B2'', td ''La Celestina'', td '' 25/01/2024 '']"

definition dashes_row :: element where
  "dashes_row = Element ''tr'' [] None [td ''3'', td ''B3'', td ''Lazarillo'', td ''31-02-2024'']"

text \<open>A row whose title sits in a link, so that the third cell has no text of its own.\<close>

definition linked_row :: element where
  "linked_row =
     Element ''tr'' [] None
       [td ''5'', td ''B5'',
        Element ''td'' [] None [Element ''a'' [(''href'', ''/B5'')] (Some ''La Regenta'') []],
        td ''31-02-2024'']"

text \<open>A row whose date has the slashes and names no day of the calendar.\<close>

definition february_row :: element where
  "february_row = Element ''tr'' [] None [td ''6'', td ''B6'', td ''Fortunata'', td ''31/02/2024'']"

text \<open>A row whose year is beyond what \<^verbatim>\<open>date\<close> takes as a C integer.\<close>

definition distant_row :: element where
  "distant_row = Element ''tr'' [] None [td ''7'', td ''B7'', td ''Tirant'', td ''01/01/99999999999'']"

definition loose_row :: element where
  "loose_row = Element ''tr'' [] None [td ''4'', td ''B4'', td ''El Buscon'', td ''1/2/2024/x'']"

definition example_parser :: "string \<Rightarrow> exn + element" where
  "example_parser s =
     (if s = ''<index>'' then Inr index_page
      else if s = ''<reader>'' then Inr reader_page
      else if s = ''<loans>'' then Inr (loans_table [quijote_row, celestina_row])
      else if s = ''<dashes>'' then Inr (loans_table [quijote_row, dashes_row, celestina_row])
      else if s = ''<loose>'' then Inr (loans_table [loose_row])
      else if s = ''<linked>'' then Inr (loans_table [linked_row])
      else if s = ''<february>'' then Inr (loans_table [quijote_row, february_row])
      else Inr blank_page)"

text \<open>
  The portal accepts the password \<^verbatim>\<open>secret\<close> and gives the session \<^verbatim>\<open>O7/ID2\<close>; the session
  \<^verbatim>\<open>O7/ID0\<close> has expired. Three more passwords stand for a portal whose pages changed.
\<close>

definition example_portal :: "request list \<Rightarrow> request \<Rightarrow> exn + response" where
  "example_portal before rq =
     (case rq of
        GET u \<Rightarrow>
          if u = ABNETSYS_BASE then Inr \<lparr>res_text = ''<index>'', res_url = u\<rparr>
          else if u = ABNETSYS_BASE @ ''/O7/ID0''
               then Inr \<lparr>res_text = ''<a href=/abnetopac/timeout.html>'', res_url = u\<rparr>
          else if u = ABNETSYS_BASE @ ''/O7/ID2/NT29?ACC=210''
               then Inr \<lparr>res_text = ''<loans>'', res_url = u\<rparr>
          else if u = ABNETSYS_BASE @ ''/O7/ID3/NT29?ACC=210''
               then Inr \<lparr>res_text = ''<dashes>'', res_url = u\<rparr>
          else if u = ABNETSYS_BASE @ ''/O7/ID4/NT29?ACC=210''
               then Inr \<lparr>res_text = ''<loose>'', res_url = u\<rparr>
          else if u = ABNETSYS_BASE @ ''/O7/ID5/NT29?ACC=210''
               then Inr \<lparr>res_text = ''<linked>'', res_url = u\<rparr>
          else if u = ABNETSYS_BASE @ ''/O7/ID6/NT29?ACC=210''
               then Inr \<lparr>res_text = ''<february>'', res_url = u\<rparr>
          else if u = ABNETSYS_BASE @ ''/O7/ID3/NT1?ACC=101''
               then Inr \<lparr>res_text = ''<blank>'', res_url = u\<rparr>
          else Inr \<lparr>res_text = ''<reader>'', res_url = u\<rparr>
      | POST u form \<Rightarrow>
          if map_of form ''lepass'' = Some ''secret''
          then Inr \<lparr>res_text = ''<reader>'', res_url = ABNETSYS_BASE @ ''/O7/ID2/NT1''\<rparr>
          else if map_of form ''lepass'' = Some ''blank''
          then Inr \<lparr>res_text = ''<blank>'', res_url = ABNETSYS_BASE @ ''/O7/ID2/NT1''\<rparr>
          else if map_of form ''lepass'' = Some ''moved''
          then Inr \<lparr>res_text = ''<reader>'', res_url = ''https://example.org/O7/ID2/NT1''\<rparr>
          else Inr \<lparr>res_text = ''Clave incorrecta'', res_url = u\<rparr>)"


text \<open>A user who types a wrong password first and the right one then.\<close>

definition example_world :: world where
  "example_world =
     \<lparr>authid_file = None, server = example_portal, sent = [], fromstring = example_parser,
      typed = (\<lambda>n. if n = 0 then Some ''jane'' else if n = 1 then Some ''guess''
                    else if n = 2 then Some ''jane'' else if n = 3 then Some ''secret''
                    else None),
      nread = 0, today = \<lparr>year = 2024, month = 1, day = 10\<rparr>, stdout = [],
      frames_left = 990\<rparr>"

text \<open>The credentials file of the session \<open>token\<close> of the user \<^verbatim>\<open>jane\<close>.\<close>

definition saved :: "string \<Rightarrow> file_content" where
  "saved token = Parsed (JObject [(''auth_id'', JString token), (''user_id'', JString ''jane'')])"


text \<open>The form \<^verbatim>\<open>login\<close> posts at the example portal.\<close>

definition login_form :: "string \<Rightarrow> string \<Rightarrow> request" where
  "login_form user password =
     POST (ABNETSYS_BASE @ ''/O7/ID1/NT1'')
       [(''FBC'', ''316''), (''NAC'', ''317''), (''ACC'', ''201''),
        (''leid'', user), (''lepass'', password)]"

text \<open>What the run of \<open>example_world\<close> ends with.\<close>

definition example_outcome :: "(exn + client) \<times> world" where
  "example_outcome =
     (Inr \<lparr>creds = [(''auth_id'', JString ''O7/ID2''), (''user_id'', JString ''jane'')],
           base = ABNETSYS_BASE @ ''/O7/ID2''\<rparr>,
      example_world\<lparr>nread := 4,
        sent := [login_form ''jane'' ''secret'', GET ABNETSYS_BASE,
                 login_form ''jane'' ''guess'', GET ABNETSYS_BASE],
        stdout := [Line ''successfully authenticated as jane (Jane Doe)''],
        authid_file := Some (saved ''O7/ID2'')\<rparr>)"

section \<open>Properties\<close>

declare str_split_from.simps [simp del] str_replace.simps [simp del] str_nat.simps [simp del]

subsection \<open>Splitting strings\<close>

lemma str_split_from_not_Nil: "str_split_from sep acc s \<noteq> []"
  by (induction sep acc s rule: str_split_from.induct) (subst str_split_from.simps, simp)


lemma str_split_from_present:
  "sep \<noteq> [] \<Longrightarrow> contains sep s \<Longrightarrow> 2 \<le> length (str_split_from sep acc s)"
proof (induction sep acc s rule: str_split_from.induct)
  case (1 sep acc s)
  from "1.prems" obtain c cs where Cons: "s = c # cs" by (cases s) auto
  show ?case
  proof (cases "prefix sep s")
    case True
    have "str_split_from sep [] (drop (length sep) s) \<noteq> []" by (rule str_split_from_not_Nil)
    then have "1 \<le> length (str_split_from sep [] (drop (length sep) s))"
      by (simp add: Suc_le_eq)
    with True Cons "1.prems"(1) show ?thesis by (subst str_split_from.simps) simp
  next
    case False
    with "1.prems" Cons have "contains sep cs" by simp
    with "1.IH"(2) Cons False "1.prems"(1) have "2 \<le> length (str_split_from sep (c # acc) cs)"
      by simp
    with Cons False show ?thesis by (subst str_split_from.simps) simp
  qed
qed

lemma str_split_from_count:
  "length (str_split_from [c] acc s) = Suc (count_list s c)"
proof (induction "[c]" acc s rule: str_split_from.induct)
  case (1 acc s)
  show ?case
  proof (cases s)
    case Nil
    then show ?thesis by (subst str_split_from.simps) simp
  next
    case (Cons x xs)
    show ?thesis
    proof (cases "x = c")
      case True
      with "1.hyps"(1) Cons have "length (str_split_from [c] [] xs) = Suc (count_list xs c)" by simp
      with True Cons show ?thesis by (subst str_split_from.simps) simp
    next
      case False
      with "1.hyps"(2) Cons have "length (str_split_from [c] (x # acc) xs) = Suc (count_list xs c)" by simp
      with False Cons show ?thesis by (subst str_split_from.simps) simp
    qed
  qed
qed

lemma item_split_first: "item (str_split sep s) 0 = Inr (hd (str_split sep s))"
  using str_split_from_not_Nil [of sep "[]" s]
  by (cases "str_split sep s") (simp_all add: item_def str_split_def)


lemma item_split_second_present:
  "sep \<noteq> [] \<Longrightarrow> contains sep s \<Longrightarrow>
     item (str_split sep s) (Suc 0) = Inr (str_split sep s ! Suc 0)"
  using str_split_from_present [of sep s "[]"] by (simp add: item_def str_split_def)

subsection \<open>The credentials file\<close>

lemma load_missing_file: "authid_file w = None \<Longrightarrow> load_credentials self w = Inr self"
  by (simp add: load_credentials_def)

lemma load_loadable:
  "authid_file w = Some (Parsed (JObject d)) \<Longrightarrow> map_of d ''auth_id'' = Some (JString a) \<Longrightarrow>
   load_credentials self w = Inr (self\<lparr>creds := d, base := ABNETSYS_BASE @ ''/'' @ a\<rparr>)"
  by (simp add: load_credentials_def)

lemma loadable_iff:
  "loadable f \<longleftrightarrow> (\<exists>d a. f = Parsed (JObject d) \<and> map_of d ''auth_id'' = Some (JString a))"
proof (cases f)
  case (Refused r)
  then show ?thesis by (simp add: loadable_def)
next
  case (Parsed j)
  show ?thesis
  proof (cases j)
    case (JObject d)
    show ?thesis
    proof (cases "map_of d ''auth_id''")
      case None
      with Parsed JObject show ?thesis by (simp add: loadable_def)
    next
      case (Some v)
      with Parsed JObject show ?thesis by (cases v) (simp_all add: loadable_def)
    qed
  qed (use Parsed in \<open>simp_all add: loadable_def\<close>)
qed

lemma load_not_loadable:
  assumes "authid_file w = Some f" and "\<not> loadable f"
  shows "\<exists>e \<in> {UnicodeDecodeError, JSONDecodeError, ValueError, RecursionError, TypeError, KeyError}.
           load_credentials self w = Inl e \<and>
           (\<forall>r. f = Refused r \<longrightarrow> e = refusal_exn r) \<and>
           (\<forall>d. f = Parsed (JObject d) \<longrightarrow>
                  e = (if map_of d ''auth_id'' = None then KeyError else TypeError)) \<and>
           (\<forall>j. f = Parsed j \<and> (\<forall>d. j \<noteq> JObject d) \<longrightarrow> e = TypeError)"
proof (cases f)
  case (Refused r)
  with assms show ?thesis
    by (cases r) (simp_all add: load_credentials_def refusal_exn_def)
next
  case (Parsed j)
  show ?thesis
  proof (cases j)
    case (JObject d)
    show ?thesis
    proof (cases "map_of d ''auth_id''")
      case None
      with assms Parsed JObject show ?thesis by (simp add: load_credentials_def)
    next
      case (Some v)
      with assms Parsed JObject show ?thesis
        by (cases v) (simp_all add: load_credentials_def loadable_def)
    qed
  qed (use assms Parsed in \<open>simp_all add: load_credentials_def\<close>)
qed

lemma load_raises_only_unloadable:
  assumes "load_credentials self w = Inl e"
  shows "\<exists>f. authid_file w = Some f \<and> \<not> loadable f"
proof (cases "authid_file w")
  case None
  with assms show ?thesis by (simp add: load_credentials_def)
next
  case (Some f)
  have "\<not> loadable f"
  proof
    assume "loadable f"
    then obtain d a where "f = Parsed (JObject d)" "map_of d ''auth_id'' = Some (JString a)"
      by (auto simp: loadable_iff)
    with Some assms show False by (simp add: load_credentials_def)
  qed
  with Some show ?thesis by simp
qed

lemma ensure_auth_load_raises:
  "load_credentials self w = Inl e \<Longrightarrow> ensure_auth self w = (Inl e, w)"
  by (simp add: ensure_auth_def)

lemma status_load_raises:
  "load_credentials self w = Inl e \<Longrightarrow> status self w = (Inl e, w)"
  by (simp add: status_def ensure_auth_def)

lemma list_load_raises:
  "load_credentials self w = Inl e \<Longrightarrow> list_loans self w = (Inl e, w)"
  by (simp add: list_loans_def ensure_auth_def)

text \<open>The client plays no part in what a load raises.\<close>

lemma load_raises_any_client:
  assumes "load_credentials self w = Inl e"
  shows "load_credentials other w = Inl e"
proof (cases "authid_file w")
  case None
  with assms show ?thesis by (simp add: load_credentials_def)
next
  case (Some f)
  show ?thesis
  proof (cases f)
    case (Refused r)
    with assms Some show ?thesis by (simp add: load_credentials_def)
  next
    case (Parsed j)
    show ?thesis
    proof (cases j)
      case (JObject d)
      show ?thesis
      proof (cases "map_of d ''auth_id''")
        case None
        with assms Some Parsed JObject show ?thesis by (simp add: load_credentials_def)
      next
        case v: (Some v)
        with assms Some Parsed JObject show ?thesis
          by (cases v) (simp_all add: load_credentials_def)
      qed
    qed (use assms Some Parsed in \<open>simp_all add: load_credentials_def\<close>)
  qed
qed

text \<open>
  C6. For every pair of strings \<open>auth_id\<close> and \<open>user_id\<close>, whatever the client held and
  whatever the file said before: after \<^verbatim>\<open>_save_credentials\<close> wrote the pair, a load by any
  client succeeds and finds exactly that pair under the two keys (and the base address of
  the session follows it).
\<close>

theorem save_load_roundtrip:
  "\<exists>self1. load_credentials other (snd (save_credentials auth_id user_id self w)) = Inr self1 \<and>
     map_of (creds self1) ''auth_id'' = Some (JString auth_id) \<and>
     map_of (creds self1) ''user_id'' = Some (JString user_id) \<and>
     base self1 = ABNETSYS_BASE @ ''/'' @ auth_id"
  by (simp add: load_credentials_def save_credentials_def Let_def update_conv')

text \<open>
  On a client that holds a record, \<^verbatim>\<open>logout\<close> removes the file, and a load then finds
  nothing.
\<close>

lemma logout_removes_file:
  assumes "map_of (creds self) ''auth_id'' = Some v" and "authid_file w = Some f"
  shows "logout self w = (Inr self, w\<lparr>authid_file := None\<rparr>) \<and>
         load_credentials other (w\<lparr>authid_file := None\<rparr>) = Inr other"
  using assms by (simp add: logout_def load_credentials_def)

text \<open>
  C2. The command \<^verbatim>\<open>logout\<close> should remove the persisted record. It runs \<^verbatim>\<open>logout\<close> on a new
  client, whose dictionary is empty, and \<^verbatim>\<open>logout\<close> looks at that dictionary and never
  loads the file: for every world, with a record saved or not, the command prints
  \<^verbatim>\<open>not authenticated\<close> and leaves the file as it was.
\<close>

theorem logout_command_keeps_file:
  "main [prog, ''logout''] w = (Inr new_client, print (Line ''not authenticated'') w) \<and>
   authid_file (print (Line ''not authenticated'') w) = authid_file w"
  by (simp add: main_def logout_def new_client_def print_def)

text \<open>
  C4 (as the program has it). Of a regular file that is there, \<^verbatim>\<open>_load_credentials\<close> raises
  when the file is refused by \<^verbatim>\<open>open\<close> or \<^verbatim>\<open>json.load\<close>, with their exception
  (\<^verbatim>\<open>UnicodeDecodeError\<close> for bytes that are no text, \<^verbatim>\<open>JSONDecodeError\<close> for text that is
  no JSON, \<^verbatim>\<open>ValueError\<close> for an integer of more than 4300 digits, \<^verbatim>\<open>RecursionError\<close> for
  nesting too deep), and when the value read is not an object whose \<open>auth_id\<close> is a
  string, with the \<^verbatim>\<open>TypeError\<close> or \<^verbatim>\<open>KeyError\<close> of the indexing. The program has no error of
  its own for a corrupt file, and nothing catches the exception: the session check and
  the commands \<^verbatim>\<open>status\<close> and \<^verbatim>\<open>list\<close> end with it, the world untouched. A file from which
  \<^verbatim>\<open>json.load\<close> returns an object with a string \<open>auth_id\<close> loads, whatever else the object
  holds or lacks.
\<close>

theorem unloadable_file_raises:
  assumes "authid_file w = Some f"
  shows "if loadable f
         then \<exists>d a. f = Parsed (JObject d) \<and> map_of d ''auth_id'' = Some (JString a) \<and>
                load_credentials self w = Inr (self\<lparr>creds := d, base := ABNETSYS_BASE @ ''/'' @ a\<rparr>)
         else \<exists>e \<in> {UnicodeDecodeError, JSONDecodeError, ValueError, RecursionError,
                      TypeError, KeyError}.
                load_credentials self w = Inl e \<and>
                ensure_auth self w = (Inl e, w) \<and>
                main [prog, ''status''] w = (Inl e, w) \<and>
                main [prog, ''list''] w = (Inl e, w) \<and>
                (\<forall>r. f = Refused r \<longrightarrow> e = refusal_exn r) \<and>
                (\<forall>d. f = Parsed (JObject d) \<longrightarrow>
                       e = (if map_of d ''auth_id'' = None then KeyError else TypeError)) \<and>
                (\<forall>j. f = Parsed j \<and> (\<forall>d. j \<noteq> JObject d) \<longrightarrow> e = TypeError)"
proof (cases "loadable f")
  case True
  then obtain d a where "f = Parsed (JObject d)" "map_of d ''auth_id'' = Some (JString a)"
    by (auto simp: loadable_iff)
  with assms True load_loadable [of w d a self] show ?thesis by auto
next
  case False
  from load_not_loadable [OF assms False, of self]
  obtain e where e: "e \<in> {UnicodeDecodeError, JSONDecodeError, ValueError, RecursionError,
                      TypeError, KeyError}"
    and l: "load_credentials self w = Inl e"
    and which: "\<forall>r. f = Refused r \<longrightarrow> e = refusal_exn r"
      "\<forall>d. f = Parsed (JObject d) \<longrightarrow>
                       e = (if map_of d ''auth_id'' = None then KeyError else TypeError)"
      "\<forall>j. f = Parsed j \<and> (\<forall>d. j \<noteq> JObject d) \<longrightarrow> e = TypeError"
    by blast
  from l have n: "load_credentials new_client w = Inl e" by (rule load_raises_any_client)
  have "main [prog, ''status''] w = (Inl e, w)"
    using status_load_raises [OF n] by (simp add: main_def)
  moreover have "main [prog, ''list''] w = (Inl e, w)"
    using list_load_raises [OF n] by (simp add: main_def)
  ultimately have "\<exists>e \<in> {UnicodeDecodeError, JSONDecodeError, ValueError, RecursionError,
                      TypeError, KeyError}.
                load_credentials self w = Inl e \<and>
                ensure_auth self w = (Inl e, w) \<and>
                main [prog, ''status''] w = (Inl e, w) \<and>
                main [prog, ''list''] w = (Inl e, w) \<and>
                (\<forall>r. f = Refused r \<longrightarrow> e = refusal_exn r) \<and>
                (\<forall>d. f = Parsed (JObject d) \<longrightarrow>
                       e = (if map_of d ''auth_id'' = None then KeyError else TypeError)) \<and>
                (\<forall>j. f = Parsed j \<and> (\<forall>d. j \<noteq> JObject d) \<longrightarrow> e = TypeError)"
    using e l which ensure_auth_load_raises [OF l] by blast
  with False show ?thesis by simp
qed

theorem unloadable_file_raises_witness:
  "load_credentials new_client (example_world\<lparr>authid_file := Some (Refused NotText)\<rparr>) =
     Inl UnicodeDecodeError \<and>
   main [''absystool'', ''status''] (example_world\<lparr>authid_file := Some (Refused NotText)\<rparr>) =
     (Inl UnicodeDecodeError, example_world\<lparr>authid_file := Some (Refused NotText)\<rparr>) \<and>
   main [''absystool'', ''list'']
     (example_world\<lparr>authid_file := Some (Parsed (JArray [JString ''O7/ID2'']))\<rparr>) =
     (Inl TypeError, example_world\<lparr>authid_file := Some (Parsed (JArray [JString ''O7/ID2'']))\<rparr>)"
  using unloadable_file_raises [of "example_world\<lparr>authid_file := Some (Refused NotText)\<rparr>"
      "Refused NotText" new_client "''absystool''"]
    unloadable_file_raises [of
      "example_world\<lparr>authid_file := Some (Parsed (JArray [JString ''O7/ID2'']))\<rparr>"
      "Parsed (JArray [JString ''O7/ID2''])" new_client "''absystool''"]
  by (auto simp: loadable_def load_credentials_def refusal_exn_def)

text \<open>
  C4 as stated fails: a file without \<open>user_id\<close> is not the expected structure and loads
  without any error; and the error of a file that is no JSON is the \<^verbatim>\<open>JSONDecodeError\<close> of
  the library.
\<close>

theorem partial_file_loads:
  "load_credentials new_client
     (example_world\<lparr>authid_file := Some (Parsed (JObject [(''auth_id'', JString ''O7/ID2'')]))\<rparr>)
   = Inr \<lparr>creds = [(''auth_id'', JString ''O7/ID2'')], base = ABNETSYS_BASE @ ''/O7/ID2''\<rparr> \<and>
   load_credentials new_client (example_world\<lparr>authid_file := Some (Refused NotJSON)\<rparr>) =
     Inl JSONDecodeError"
  by (simp add: load_credentials_def new_client_def refusal_exn_def)

subsection \<open>Logging in\<close>

declare login_nested.simps [simp del]



lemma login_nested_again:
  "login_attempt self w = (Inr (user, res, self1), w1) \<Longrightarrow>
   contains ''incorrecta'' (res_text res) \<Longrightarrow>
   login_nested (Suc room) self w = login_nested room self1 w1"
  by (subst login_nested.simps) simp

lemma login_nested_no_room:
  "login_attempt self w = (Inr (user, res, self1), w1) \<Longrightarrow>
   contains ''incorrecta'' (res_text res) \<Longrightarrow>
   login_nested 0 self w = (Inl RecursionError, w1)"
  by (subst login_nested.simps) simp

text \<open>An attempt is the last one, or it is answered with \<^verbatim>\<open>incorrecta\<close>.\<close>

lemma attempt_cases:
  obtains (last) r where "last_attempt self w r"
  | (again) user res self1 w1 where "login_attempt self w = (Inr (user, res, self1), w1)"
      "contains ''incorrecta'' (res_text res)"
proof (cases "login_attempt self w")
  case (Pair a w1)
  show ?thesis
  proof (cases a)
    case (Inl e)
    with Pair have "last_attempt self w (Inl e, w1)" by (simp add: last_attempt_def)
    then show ?thesis by (rule last)
  next
    case (Inr t)
    obtain user res self1 where t: "t = (user, res, self1)" by (cases t)
    show ?thesis
    proof (cases "contains ''incorrecta'' (res_text res)")
      case True
      with Pair Inr t show ?thesis by (intro again) simp_all
    next
      case False
      with Pair Inr t have "last_attempt self w (login_finish user res self1 w1)"
        by (simp add: last_attempt_def)
      then show ?thesis by (rule last)
    qed
  qed
qed

lemma login_nested_last: "last_attempt self w r \<Longrightarrow> login_nested room self w = r"
  by (subst login_nested.simps) (auto simp: last_attempt_def split: prod.splits sum.splits)

lemma failed_attempts_Suc:
  "failed_attempts (Suc n) self w = Some (self', w') \<Longrightarrow>
     \<exists>user res self1 w1. login_attempt self w = (Inr (user, res, self1), w1) \<and>
       contains ''incorrecta'' (res_text res) \<and> failed_attempts n self1 w1 = Some (self', w')"
  by (auto split: prod.splits sum.splits if_splits)

lemma login_nested_after:
  "failed_attempts n self w = Some (self', w') \<Longrightarrow> n \<le> room \<Longrightarrow>
     login_nested room self w = login_nested (room - n) self' w'"
proof (induction n arbitrary: self w room)
  case 0
  then show ?case by simp
next
  case (Suc n)
  from failed_attempts_Suc [OF Suc.prems(1)] obtain user res self1 w1 where
    att: "login_attempt self w = (Inr (user, res, self1), w1)" and
    bad: "contains ''incorrecta'' (res_text res)" and
    rest: "failed_attempts n self1 w1 = Some (self', w')"
    by blast
  from Suc.prems(2) obtain room' where room: "room = Suc room'" and le: "n \<le> room'"
    by (cases room) auto
  from login_nested_again [OF att bad, of room'] Suc.IH [OF rest le] room
  show ?case by simp
qed


text \<open>
  How a run of \<^verbatim>\<open>login\<close> ends: in a last attempt, after no more rejected attempts than
  there is room for, or with \<^verbatim>\<open>RecursionError\<close> after one more than that.
\<close>

lemma login_nested_ends:
  "(\<exists>n self' w'. n \<le> room \<and> failed_attempts n self w = Some (self', w') \<and>
       last_attempt self' w' (login_nested room self w)) \<or>
   (\<exists>self' w'. failed_attempts (Suc room) self w = Some (self', w') \<and>
       login_nested room self w = (Inl RecursionError, w'))"
proof (induction room arbitrary: self w)
  case 0
  show ?case
  proof (cases rule: attempt_cases [of self w])
    case (last r)
    with login_nested_last [OF last, of 0]
    have "0 \<le> (0::nat) \<and> failed_attempts 0 self w = Some (self, w) \<and>
        last_attempt self w (login_nested 0 self w)" by simp
    then show ?thesis by blast
  next
    case (again user res self1 w1)
    then have "failed_attempts (Suc 0) self w = Some (self1, w1)" by simp
    with login_nested_no_room [OF again] show ?thesis by blast
  qed
next
  case (Suc room)
  show ?case
  proof (cases rule: attempt_cases [of self w])
    case (last r)
    with login_nested_last [OF last, of "Suc room"]
    have "0 \<le> Suc room \<and> failed_attempts 0 self w = Some (self, w) \<and>
        last_attempt self w (login_nested (Suc room) self w)" by simp
    then show ?thesis by blast
  next
    case (again user res self1 w1)
    note step = login_nested_again [OF again, of room]
    from Suc.IH [of self1 w1] show ?thesis
    proof
      assume "\<exists>n self' w'. n \<le> room \<and> failed_attempts n self1 w1 = Some (self', w') \<and>
         last_attempt self' w' (login_nested room self1 w1)"
      then obtain n self' w' where "n \<le> room" "failed_attempts n self1 w1 = Some (self', w')"
        "last_attempt self' w' (login_nested room self1 w1)" by blast
      with again step have "Suc n \<le> Suc room \<and> failed_attempts (Suc n) self w = Some (self', w') \<and>
        last_attempt self' w' (login_nested (Suc room) self w)" by simp
      then show ?thesis by blast
    next
      assume "\<exists>self' w'. failed_attempts (Suc room) self1 w1 = Some (self', w') \<and>
         login_nested room self1 w1 = (Inl RecursionError, w')"
      then obtain self' w' where "failed_attempts (Suc room) self1 w1 = Some (self', w')"
        "login_nested room self1 w1 = (Inl RecursionError, w')" by blast
      with again step have "failed_attempts (Suc (Suc room)) self w = Some (self', w') \<and>
        login_nested (Suc room) self w = (Inl RecursionError, w')" by simp
      then show ?thesis by blast
    qed
  qed
qed

lemma login_nested_returned:
  assumes "login_nested room self w = (Inr self'', w'')"
  shows "\<exists>n self' w'. n \<le> room \<and> failed_attempts n self w = Some (self', w') \<and>
           last_attempt self' w' (Inr self'', w'')"
  using login_nested_ends [of room self w] assms by auto

text \<open>What an attempt changes: the lines read and the requests sent.\<close>

lemma login_attempt_world:
  assumes "login_attempt self w = (r, w')"
  shows "authid_file w' = authid_file w \<and> stdout w' = stdout w \<and> server w' = server w \<and>
         fromstring w' = fromstring w \<and> typed w' = typed w \<and> today w' = today w"
  using assms
  by (auto simp: login_attempt_def read_line_def http_def Let_def
      split: option.splits sum.splits prod.splits)

lemma login_attempt_client:
  assumes "login_attempt self w = (Inr (user, res, self1), w1)"
  shows "self1 = self\<lparr>base := ABNETSYS_BASE\<rparr> \<and> nread w1 = nread w + 2"
  using assms
  by (auto simp: login_attempt_def read_line_def http_def Let_def
      split: option.splits sum.splits prod.splits)

lemma failed_attempts_keep:
  "failed_attempts n self w = Some (self', w') \<Longrightarrow>
     creds self' = creds self \<and> authid_file w' = authid_file w \<and> nread w' = nread w + 2 * n"
proof (induction n arbitrary: self w)
  case 0
  then show ?case by simp
next
  case (Suc n)
  from failed_attempts_Suc [OF Suc.prems] obtain user res self1 w1 where
    att: "login_attempt self w = (Inr (user, res, self1), w1)" and
    rest: "failed_attempts n self1 w1 = Some (self', w')"
    by blast
  from login_attempt_client [OF att] login_attempt_world [OF att] Suc.IH [OF rest]
  show ?case by simp
qed

lemma login_finish_raises:
  "login_finish user res self w = (Inl e, w') \<Longrightarrow> authid_file w' = authid_file w"
  by (auto simp: login_finish_def print_def Let_def save_credentials_def
      split: sum.splits prod.splits)

lemma login_finish_returns:
  assumes "login_finish user res self w = (Inr self', w')"
  shows "\<exists>token. creds self' =
            AList.update ''user_id'' (JString user)
              (AList.update ''auth_id'' (JString token) (creds self)) \<and>
          base self' = ABNETSYS_BASE @ ''/'' @ token \<and>
          authid_file w' = Some (Parsed (JObject (creds self')))"
  using assms
  by (auto simp: login_finish_def print_def Let_def save_credentials_def
      split: sum.splits prod.splits)

lemma both_fields_update:
  "both_fields (AList.update ''user_id'' (JString u) (AList.update ''auth_id'' (JString a) d))"
  by (simp add: both_fields_def update_conv')

lemma last_attempt_raises:
  assumes "last_attempt self w (Inl e, w')"
  shows "authid_file w' = authid_file w"
proof (cases "login_attempt self w")
  case (Pair a w1)
  note world = login_attempt_world [OF Pair]
  show ?thesis
  proof (cases a)
    case (Inl e')
    with assms Pair world show ?thesis by (simp add: last_attempt_def)
  next
    case (Inr t)
    obtain user res self1 where "t = (user, res, self1)" by (cases t)
    with assms Pair Inr have "login_finish user res self1 w1 = (Inl e, w')"
      by (simp add: last_attempt_def)
    from login_finish_raises [OF this] world show ?thesis by simp
  qed
qed

lemma login_nested_raises:
  assumes "login_nested room self w = (Inl e, w')"
  shows "authid_file w' = authid_file w"
  using login_nested_ends [of room self w]
proof
  assume "\<exists>n self1 w1. n \<le> room \<and> failed_attempts n self w = Some (self1, w1) \<and>
       last_attempt self1 w1 (login_nested room self w)"
  then obtain n self1 w1 where n: "failed_attempts n self w = Some (self1, w1)"
    and fin: "last_attempt self1 w1 (Inl e, w')" using assms by auto
  from last_attempt_raises [OF fin] failed_attempts_keep [OF n] show ?thesis by simp
next
  assume "\<exists>self1 w1. failed_attempts (Suc room) self w = Some (self1, w1) \<and>
       login_nested room self w = (Inl RecursionError, w1)"
  then obtain self1 where "failed_attempts (Suc room) self w = Some (self1, w')"
    using assms by auto
  from failed_attempts_keep [OF this] show ?thesis by simp
qed

lemma login_nested_returns:
  assumes "login_nested room self w = (Inr self', w')"
  shows "\<exists>user token. creds self' =
            AList.update ''user_id'' (JString user)
              (AList.update ''auth_id'' (JString token) (creds self)) \<and>
          base self' = ABNETSYS_BASE @ ''/'' @ token \<and>
          authid_file w' = Some (Parsed (JObject (creds self')))"
proof -
  from login_nested_returned [OF assms] obtain n self1 w1 where
    n: "failed_attempts n self w = Some (self1, w1)" and fin: "last_attempt self1 w1 (Inr self', w')"
    by blast
  from fin obtain user res self2 w2 where
    att: "login_attempt self1 w1 = (Inr (user, res, self2), w2)" and
    saved: "login_finish user res self2 w2 = (Inr self', w')"
    by (auto simp: last_attempt_def split: prod.splits sum.splits)
  from login_attempt_client [OF att] failed_attempts_keep [OF n]
  have "creds self2 = creds self" by simp
  with login_finish_returns [OF saved] show ?thesis by auto
qed

lemma login_raises:
  "login self w = (Inl e, w') \<Longrightarrow> authid_file w' = authid_file w"
  unfolding login_def by (rule login_nested_raises)

lemma login_returns:
  "login self w = (Inr self', w') \<Longrightarrow>
     \<exists>user token. creds self' =
            AList.update ''user_id'' (JString user)
              (AList.update ''auth_id'' (JString token) (creds self)) \<and>
          base self' = ABNETSYS_BASE @ ''/'' @ token \<and>
          authid_file w' = Some (Parsed (JObject (creds self')))"
  unfolding login_def by (rule login_nested_returns)

subsection \<open>Runs at the example portal\<close>

lemma refresh_path_index: "refresh_path index_page = Inr ''/O7/ID1''"
  by code_simp

lemma session_name_reader: "session_name reader_page = Inr ''Jane Doe''"
  by code_simp

lemma session_token_example: "session_token (ABNETSYS_BASE @ ''/O7/ID2/NT1'') = Inr ''O7/ID2''"
  by code_simp

lemma incorrecta_example: "contains ''incorrecta'' ''Clave incorrecta''"
  by code_simp

lemma incorrecta_reader: "\<not> contains ''incorrecta'' ''<reader>''"
  by code_simp

lemma timeout_example: "contains ''/abnetopac/timeout.html'' ''<a href=/abnetopac/timeout.html>''"
  by code_simp

lemma timeout_reader: "\<not> contains ''/abnetopac/timeout.html'' ''<reader>''"
  by code_simp

lemma example_attempt:
  assumes "server w = example_portal" and "fromstring w = example_parser"
      and "typed w (nread w) = Some user" and "typed w (Suc (nread w)) = Some password"
      and "example_portal (GET ABNETSYS_BASE # sent w) (login_form user password) = Inr res"
  shows "login_attempt self w =
           (Inr (user, res, self\<lparr>base := ABNETSYS_BASE\<rparr>),
            w\<lparr>nread := Suc (Suc (nread w)),
              sent := login_form user password # GET ABNETSYS_BASE # sent w\<rparr>)"
proof -
  have "example_portal (sent w) (GET ABNETSYS_BASE) = Inr \<lparr>res_text = ''<index>'', res_url = ABNETSYS_BASE\<rparr>"
    by (simp add: example_portal_def)
  moreover have "example_parser ''<index>'' = Inr index_page"
    by (simp add: example_parser_def)
  ultimately show ?thesis
    using assms
    by (simp add: login_attempt_def read_line_def http_def and_then_def refresh_path_index
        login_form_def)
qed

lemma guess_answer:
  "example_portal before (login_form user ''guess'') =
     Inr \<lparr>res_text = ''Clave incorrecta'', res_url = ABNETSYS_BASE @ ''/O7/ID1/NT1''\<rparr>"
  by (simp add: example_portal_def login_form_def)

lemma secret_answer:
  "example_portal before (login_form user ''secret'') =
     Inr \<lparr>res_text = ''<reader>'', res_url = ABNETSYS_BASE @ ''/O7/ID2/NT1''\<rparr>"
  by (simp add: example_portal_def login_form_def)

lemma example_world_fields:
  "authid_file example_world = None" "server example_world = example_portal"
  "sent example_world = []" "fromstring example_world = example_parser"
  "nread example_world = 0" "stdout example_world = []"
  "today example_world = \<lparr>year = 2024, month = 1, day = 10\<rparr>"
  "frames_left example_world = 990"
  by (simp_all add: example_world_def)

lemma example_world_typed:
  "typed example_world 0 = Some ''jane''"
  "typed example_world (Suc 0) = Some ''guess''"
  "typed example_world (Suc (Suc 0)) = Some ''jane''"
  "typed example_world (Suc (Suc (Suc 0))) = Some ''secret''"
  by (simp_all add: example_world_def)

lemma example_failed_attempt:
  assumes "server w = example_portal" and "fromstring w = example_parser"
      and "typed w (nread w) = Some user" and "typed w (Suc (nread w)) = Some ''guess''"
  shows "failed_attempts (Suc 0) self w =
           Some (self\<lparr>base := ABNETSYS_BASE\<rparr>,
                 w\<lparr>nread := Suc (Suc (nread w)),
                   sent := login_form user ''guess'' # GET ABNETSYS_BASE # sent w\<rparr>)"
  using example_attempt [OF assms guess_answer, of self] by (simp add: incorrecta_example)

lemma example_last_attempt:
  assumes "server w = example_portal" and "fromstring w = example_parser"
      and "typed w (nread w) = Some user" and "typed w (Suc (nread w)) = Some ''secret''"
  shows "last_attempt self w
           (Inr \<lparr>creds = AList.update ''user_id'' (JString user)
                           (AList.update ''auth_id'' (JString ''O7/ID2'') (creds self)),
                 base = ABNETSYS_BASE @ ''/O7/ID2''\<rparr>,
            w\<lparr>nread := Suc (Suc (nread w)),
              sent := login_form user ''secret'' # GET ABNETSYS_BASE # sent w,
              stdout := stdout w @ [Line (''successfully authenticated as '' @ user @ '' (Jane Doe)'')],
              authid_file := Some (Parsed (JObject
                (AList.update ''user_id'' (JString user)
                   (AList.update ''auth_id'' (JString ''O7/ID2'') (creds self)))))\<rparr>)"
proof -
  have "example_parser ''<reader>'' = Inr reader_page"
    by (simp add: example_parser_def)
  with example_attempt [OF assms secret_answer, of self] assms(2) show ?thesis
    by (cases self)
      (simp add: last_attempt_def incorrecta_reader login_finish_def and_then_def
        session_name_reader session_token_example print_def save_credentials_def Let_def)
qed

text \<open>The run of the user of \<open>example_world\<close>, from any state of the file and the output.\<close>

lemma example_run:
  assumes "server w = example_portal" and "fromstring w = example_parser"
      and "typed w = typed example_world" and "nread w = 0" and "0 < frames_left w"
  shows "login self w =
           (Inr \<lparr>creds = AList.update ''user_id'' (JString ''jane'')
                           (AList.update ''auth_id'' (JString ''O7/ID2'') (creds self)),
                 base = ABNETSYS_BASE @ ''/O7/ID2''\<rparr>,
            w\<lparr>nread := 4,
              sent := login_form ''jane'' ''secret'' # GET ABNETSYS_BASE #
                      login_form ''jane'' ''guess'' # GET ABNETSYS_BASE # sent w,
              stdout := stdout w @ [Line ''successfully authenticated as jane (Jane Doe)''],
              authid_file := Some (Parsed (JObject
                (AList.update ''user_id'' (JString ''jane'')
                   (AList.update ''auth_id'' (JString ''O7/ID2'') (creds self)))))\<rparr>)"
proof -
  let ?w1 = "w\<lparr>nread := Suc (Suc (nread w)),
               sent := login_form ''jane'' ''guess'' # GET ABNETSYS_BASE # sent w\<rparr>"
  have first: "failed_attempts (Suc 0) self w = Some (self\<lparr>base := ABNETSYS_BASE\<rparr>, ?w1)"
    by (rule example_failed_attempt) (simp_all add: assms example_world_typed)
  have "last_attempt (self\<lparr>base := ABNETSYS_BASE\<rparr>) ?w1
           (Inr \<lparr>creds = AList.update ''user_id'' (JString ''jane'')
                           (AList.update ''auth_id'' (JString ''O7/ID2'')
                              (creds (self\<lparr>base := ABNETSYS_BASE\<rparr>))),
                 base = ABNETSYS_BASE @ ''/O7/ID2''\<rparr>,
            ?w1\<lparr>nread := Suc (Suc (nread ?w1)),
              sent := login_form ''jane'' ''secret'' # GET ABNETSYS_BASE # sent ?w1,
              stdout := stdout ?w1 @ [Line (''successfully authenticated as '' @ ''jane'' @ '' (Jane Doe)'')],
              authid_file := Some (Parsed (JObject
                (AList.update ''user_id'' (JString ''jane'')
                   (AList.update ''auth_id'' (JString ''O7/ID2'')
                      (creds (self\<lparr>base := ABNETSYS_BASE\<rparr>))))))\<rparr>)"
    by (rule example_last_attempt) (simp_all add: assms example_world_typed)
  from login_nested_last [OF this, of "frames_left w - Suc 0"]
    login_nested_after [OF first, of "frames_left w"] assms(4,5)
  show ?thesis by (simp add: login_def eval_nat_numeral)
qed

lemma example_login: "login new_client example_world = example_outcome"
  using example_run [of example_world new_client]
  by (simp add: example_world_fields example_outcome_def new_client_def saved_def)





subsection \<open>The session check\<close>

lemma ensure_auth_probe_accepted:
  assumes "authid_file w = Some (Parsed (JObject d))"
      and "map_of d ''auth_id'' = Some (JString a)"
      and "server w (sent w) (GET (ABNETSYS_BASE @ ''/'' @ a)) = Inr probe"
      and "\<not> contains ''/abnetopac/timeout.html'' (res_text probe)"
  shows "ensure_auth self w =
           (Inr (self\<lparr>creds := d, base := ABNETSYS_BASE @ ''/'' @ a\<rparr>),
            w\<lparr>sent := GET (ABNETSYS_BASE @ ''/'' @ a) # sent w\<rparr>)"
  using assms by (simp add: ensure_auth_def load_loadable http_def)

text \<open>
  C10. When the stored record loads and the answer to the probe does not contain
  \<^verbatim>\<open>/abnetopac/timeout.html\<close>, whatever else it says, \<^verbatim>\<open>_ensure_auth\<close> returns the client
  with the stored record: no line is read from the user and nothing is printed, so
  \<^verbatim>\<open>login\<close> did not run, the file is as it was, and the only request sent is the probe.
\<close>

theorem ensure_auth_accepts:
  assumes "authid_file w = Some (Parsed (JObject d))"
      and "map_of d ''auth_id'' = Some (JString a)"
      and "server w (sent w) (GET (ABNETSYS_BASE @ ''/'' @ a)) = Inr probe"
      and "\<not> contains ''/abnetopac/timeout.html'' (res_text probe)"
  shows "ensure_auth self w =
           (Inr (self\<lparr>creds := d, base := ABNETSYS_BASE @ ''/'' @ a\<rparr>),
            w\<lparr>sent := GET (ABNETSYS_BASE @ ''/'' @ a) # sent w\<rparr>)"
  using assms by (rule ensure_auth_probe_accepted)

theorem ensure_auth_accepts_witness:
  "ensure_auth new_client (example_world\<lparr>authid_file := Some (saved ''O7/ID2'')\<rparr>) =
     (Inr \<lparr>creds = [(''auth_id'', JString ''O7/ID2''), (''user_id'', JString ''jane'')],
           base = ABNETSYS_BASE @ ''/O7/ID2''\<rparr>,
      example_world\<lparr>authid_file := Some (saved ''O7/ID2''),
                     sent := [GET (ABNETSYS_BASE @ ''/O7/ID2'')]\<rparr>)"
  using ensure_auth_accepts [of "example_world\<lparr>authid_file := Some (saved ''O7/ID2'')\<rparr>"
      "[(''auth_id'', JString ''O7/ID2''), (''user_id'', JString ''jane'')]" "''O7/ID2''"
      "\<lparr>res_text = ''<reader>'', res_url = ABNETSYS_BASE @ ''/O7/ID2''\<rparr>" new_client]
  by (simp add: saved_def example_world_fields example_portal_def timeout_reader new_client_def)

lemma ensure_auth_expired_login:
  assumes "authid_file w = Some (Parsed (JObject d))"
      and "map_of d ''auth_id'' = Some (JString a)"
      and "server w (sent w) (GET (ABNETSYS_BASE @ ''/'' @ a)) = Inr probe"
      and "contains ''/abnetopac/timeout.html'' (res_text probe)"
  shows "ensure_auth self w =
           login \<lparr>creds = [], base = ABNETSYS_BASE @ ''/'' @ a\<rparr>
             (w\<lparr>sent := GET (ABNETSYS_BASE @ ''/'' @ a) # sent w,
                stdout := stdout w @ [Line ''Previous session expired'']\<rparr>)"
  using assms by (cases self) (simp add: ensure_auth_def load_loadable http_def print_def)

text \<open>
  C5. When the stored record loads and the answer to the probe contains the marker
  \<^verbatim>\<open>/abnetopac/timeout.html\<close>, \<^verbatim>\<open>_ensure_auth\<close> is one call of \<^verbatim>\<open>login\<close> on a client whose
  dictionary is empty, in a world where the file still holds the old record; and when
  that call returns a client, its dictionary is the pair this login saved, the file holds
  that pair, and the base address is the one of the new session.
\<close>

theorem ensure_auth_expired:
  assumes "authid_file w = Some (Parsed (JObject d))"
      and "map_of d ''auth_id'' = Some (JString a)"
      and "server w (sent w) (GET (ABNETSYS_BASE @ ''/'' @ a)) = Inr probe"
      and "contains ''/abnetopac/timeout.html'' (res_text probe)"
  shows "ensure_auth self w =
           login \<lparr>creds = [], base = ABNETSYS_BASE @ ''/'' @ a\<rparr>
             (w\<lparr>sent := GET (ABNETSYS_BASE @ ''/'' @ a) # sent w,
                stdout := stdout w @ [Line ''Previous session expired'']\<rparr>) \<and>
         authid_file (w\<lparr>sent := GET (ABNETSYS_BASE @ ''/'' @ a) # sent w,
                stdout := stdout w @ [Line ''Previous session expired'']\<rparr>) = authid_file w \<and>
         (\<forall>self' w'. ensure_auth self w = (Inr self', w') \<longrightarrow>
            (\<exists>user token.
               creds self' = [(''auth_id'', JString token), (''user_id'', JString user)] \<and>
               base self' = ABNETSYS_BASE @ ''/'' @ token \<and>
               authid_file w' = Some (Parsed (JObject (creds self')))))"
proof -
  note eq = ensure_auth_expired_login [OF assms, of self]
  have "\<exists>user token.
               creds self' = [(''auth_id'', JString token), (''user_id'', JString user)] \<and>
               base self' = ABNETSYS_BASE @ ''/'' @ token \<and>
               authid_file w' = Some (Parsed (JObject (creds self')))"
    if "ensure_auth self w = (Inr self', w')" for self' w'
    using login_returns [OF that [unfolded eq]] by simp
  with eq show ?thesis by simp
qed

theorem ensure_auth_expired_witness:
  "ensure_auth new_client (example_world\<lparr>authid_file := Some (saved ''O7/ID0'')\<rparr>) =
     login \<lparr>creds = [], base = ABNETSYS_BASE @ ''/O7/ID0''\<rparr>
       (example_world\<lparr>authid_file := Some (saved ''O7/ID0''),
          sent := [GET (ABNETSYS_BASE @ ''/O7/ID0'')],
          stdout := [Line ''Previous session expired'']\<rparr>) \<and>
   ensure_auth new_client (example_world\<lparr>authid_file := Some (saved ''O7/ID0'')\<rparr>) =
     (Inr \<lparr>creds = [(''auth_id'', JString ''O7/ID2''), (''user_id'', JString ''jane'')],
           base = ABNETSYS_BASE @ ''/O7/ID2''\<rparr>,
      example_world\<lparr>nread := 4,
        sent := [login_form ''jane'' ''secret'', GET ABNETSYS_BASE,
                 login_form ''jane'' ''guess'', GET ABNETSYS_BASE,
                 GET (ABNETSYS_BASE @ ''/O7/ID0'')],
        stdout := [Line ''Previous session expired'',
                   Line ''successfully authenticated as jane (Jane Doe)''],
        authid_file := Some (saved ''O7/ID2'')\<rparr>)"
proof -
  let ?w = "example_world\<lparr>authid_file := Some (saved ''O7/ID0'')\<rparr>"
  let ?w1 = "?w\<lparr>sent := GET (ABNETSYS_BASE @ ''/'' @ ''O7/ID0'') # sent ?w,
                stdout := stdout ?w @ [Line ''Previous session expired'']\<rparr>"
  have "ensure_auth new_client ?w =
          login \<lparr>creds = [], base = ABNETSYS_BASE @ ''/'' @ ''O7/ID0''\<rparr> ?w1"
    using ensure_auth_expired [of ?w "[(''auth_id'', JString ''O7/ID0''), (''user_id'', JString ''jane'')]"
        "''O7/ID0''" "\<lparr>res_text = ''<a href=/abnetopac/timeout.html>'', res_url = ABNETSYS_BASE @ ''/O7/ID0''\<rparr>"
        new_client]
    by (simp add: saved_def example_world_fields example_portal_def timeout_example)
  moreover have "login \<lparr>creds = [], base = ABNETSYS_BASE @ ''/'' @ ''O7/ID0''\<rparr> ?w1 =
     (Inr \<lparr>creds = [(''auth_id'', JString ''O7/ID2''), (''user_id'', JString ''jane'')],
           base = ABNETSYS_BASE @ ''/O7/ID2''\<rparr>,
      example_world\<lparr>nread := 4,
        sent := [login_form ''jane'' ''secret'', GET ABNETSYS_BASE,
                 login_form ''jane'' ''guess'', GET ABNETSYS_BASE,
                 GET (ABNETSYS_BASE @ ''/O7/ID0'')],
        stdout := [Line ''Previous session expired'',
                   Line ''successfully authenticated as jane (Jane Doe)''],
        authid_file := Some (saved ''O7/ID2'')\<rparr>)"
    using example_run [of ?w1 "\<lparr>creds = [], base = ABNETSYS_BASE @ ''/'' @ ''O7/ID0''\<rparr>"]
    by (simp add: example_world_fields saved_def)
  ultimately show ?thesis by (simp add: example_world_fields)
qed

subsection \<open>Retries\<close>




subsection \<open>The record is written whole\<close>

lemma login_whole:
  assumes "record_whole w" and "login self w = (r, w')"
  shows "record_whole w' \<and> (\<forall>self'. r = Inr self' \<longrightarrow> both_fields (creds self'))"
proof (cases r)
  case (Inl e)
  with login_raises [of self w e w'] assms show ?thesis by (simp add: record_whole_def)
next
  case (Inr self')
  with login_returns [of self w self' w'] assms(2) obtain user token where
    "creds self' = AList.update ''user_id'' (JString user)
              (AList.update ''auth_id'' (JString token) (creds self))"
    "authid_file w' = Some (Parsed (JObject (creds self')))" by auto
  with Inr both_fields_update [of user token "creds self"] show ?thesis
    by (simp add: record_whole_def)
qed

lemma load_whole:
  assumes "record_whole w" and "load_credentials self w = Inr self1"
      and "creds self = [] \<or> both_fields (creds self)"
  shows "creds self1 = [] \<or> both_fields (creds self1)"
proof (cases "authid_file w")
  case None
  with assms show ?thesis by (simp add: load_credentials_def)
next
  case (Some f)
  with assms(2) load_not_loadable [of w f self] have "loadable f" by auto
  then obtain d a where f: "f = Parsed (JObject d)" "map_of d ''auth_id'' = Some (JString a)"
    by (auto simp: loadable_iff)
  with Some assms(1) have "both_fields d" by (simp add: record_whole_def)
  with load_loadable [of w d a self] Some f assms(2) show ?thesis by auto
qed

lemma ensure_auth_whole:
  assumes "record_whole w" and "ensure_auth self w = (r, w')"
      and "creds self = [] \<or> both_fields (creds self)"
  shows "record_whole w' \<and> (\<forall>self'. r = Inr self' \<longrightarrow> both_fields (creds self'))"
proof (cases "load_credentials self w")
  case (Inl e)
  with assms show ?thesis by (auto simp: ensure_auth_def)
next
  case (Inr self1)
  note inv = load_whole [OF assms(1) Inr assms(3)]
  show ?thesis
  proof (cases "map_of (creds self1) ''auth_id'' = None")
    case True
    with Inr assms(2) have "login self1 w = (r, w')" by (simp add: ensure_auth_def)
    from login_whole [OF assms(1) this] show ?thesis .
  next
    case False
    with inv have both: "both_fields (creds self1)" by auto
    from False obtain v where v: "map_of (creds self1) ''auth_id'' = Some v" by auto
    let ?w1 = "w\<lparr>sent := GET (base self1) # sent w\<rparr>"
    have whole1: "record_whole ?w1" using assms(1) by (simp add: record_whole_def)
    show ?thesis
    proof (cases "server w (sent w) (GET (base self1))")
      case (Inl e)
      with Inr v assms(2) have "r = Inl e \<and> w' = ?w1"
        by (auto simp: ensure_auth_def http_def)
      with whole1 show ?thesis by simp
    next
      case probe: (Inr probe)
      show ?thesis
      proof (cases "contains ''/abnetopac/timeout.html'' (res_text probe)")
        case True
        with Inr v probe assms(2)
        have "login (self1\<lparr>creds := []\<rparr>) (print (Line ''Previous session expired'') ?w1) = (r, w')"
          by (simp add: ensure_auth_def http_def)
        moreover from whole1 have "record_whole (print (Line ''Previous session expired'') ?w1)"
          by (simp add: record_whole_def print_def)
        ultimately show ?thesis by (rule login_whole [rotated])
      next
        case no: False
        with Inr v probe assms(2) have "r = Inr self1 \<and> w' = ?w1"
          by (auto simp: ensure_auth_def http_def)
        with whole1 both show ?thesis by simp
      qed
    qed
  qed
qed

lemma status_page_keeps:
  "status_page self w = (r, w') \<Longrightarrow>
     authid_file w' = authid_file w \<and> (\<forall>self'. r = Inr self' \<longrightarrow> self' = self)"
  by (auto simp: status_page_def http_def print_def split: sum.splits option.splits)

lemma loans_page_keeps:
  "loans_page self w = (r, w') \<Longrightarrow>
     authid_file w' = authid_file w \<and> (\<forall>self'. r = Inr self' \<longrightarrow> self' = self)"
  by (auto simp: loans_page_def http_def print_def split: sum.splits option.splits)

lemma new_client_creds: "creds new_client = []"
  by (simp add: new_client_def)

lemma main_cases:
  assumes "main argv w = (r, w')"
  shows "(r = Inr new_client \<and> w' = print Usage w) \<or> login new_client w = (r, w') \<or>
         logout new_client w = (r, w') \<or> status new_client w = (r, w') \<or>
         list_loans new_client w = (r, w')"
proof (cases "length argv < 2")
  case True
  with assms show ?thesis by (simp add: main_def)
next
  case long: False
  show ?thesis
  proof (cases "argv ! 1 = ''login''")
    case True
    with assms long show ?thesis by (simp add: main_def)
  next
    case no_login: False
    show ?thesis
    proof (cases "argv ! 1 = ''logout''")
      case True
      with assms long no_login show ?thesis by (simp add: main_def)
    next
      case no_logout: False
      show ?thesis
      proof (cases "argv ! 1 = ''status''")
        case True
        with assms long no_login no_logout show ?thesis by (simp add: main_def)
      next
        case no_status: False
        with assms long no_login no_logout show ?thesis
          by (cases "argv ! 1 = ''list''") (simp_all add: main_def)
      qed
    qed
  qed
qed

text \<open>
  C9 (as the program has it). The program writes the record whole: from a world whose
  file is not there or holds both fields, each a string, every command leaves the file
  not there or holding both fields, and the dictionary of the client it ends with is
  empty or holds both.
\<close>

theorem record_written_whole:
  assumes "record_whole w" and "main argv w = (r, w')"
  shows "record_whole w' \<and> (\<forall>self'. r = Inr self' \<longrightarrow> creds self' = [] \<or> both_fields (creds self'))"
proof -
  consider (usage) "r = Inr new_client" "w' = print Usage w"
    | (login) "login new_client w = (r, w')"
    | (logout) "logout new_client w = (r, w')"
    | (status) "status new_client w = (r, w')"
    | (list) "list_loans new_client w = (r, w')"
    using main_cases [OF assms(2)] by blast
  then show ?thesis
  proof cases
    case usage
    with assms(1) show ?thesis by (simp add: record_whole_def print_def new_client_creds)
  next
    case login
    from login_whole [OF assms(1) this] show ?thesis by simp
  next
    case logout
    with assms(1) show ?thesis
      by (auto simp: logout_def new_client_creds record_whole_def print_def)
  next
    case status
    obtain r1 w1 where ea: "ensure_auth new_client w = (r1, w1)"
      by (cases "ensure_auth new_client w")
    from ensure_auth_whole [OF assms(1) ea] have inv: "record_whole w1"
      "\<And>self1. r1 = Inr self1 \<Longrightarrow> both_fields (creds self1)"
      by (simp_all add: new_client_creds)
    show ?thesis
    proof (cases r1)
      case (Inl e)
      with status ea inv show ?thesis by (simp add: status_def)
    next
      case (Inr self1)
      with status ea have "status_page self1 w1 = (r, w')" by (simp add: status_def)
      from status_page_keeps [OF this] inv Inr show ?thesis
        by (auto simp: record_whole_def)
    qed
  next
    case list
    obtain r1 w1 where ea: "ensure_auth new_client w = (r1, w1)"
      by (cases "ensure_auth new_client w")
    from ensure_auth_whole [OF assms(1) ea] have inv: "record_whole w1"
      "\<And>self1. r1 = Inr self1 \<Longrightarrow> both_fields (creds self1)"
      by (simp_all add: new_client_creds)
    show ?thesis
    proof (cases r1)
      case (Inl e)
      with list ea inv show ?thesis by (simp add: list_loans_def)
    next
      case (Inr self1)
      with list ea have "loans_page self1 w1 = (r, w')" by (simp add: list_loans_def)
      from loans_page_keeps [OF this] inv Inr show ?thesis
        by (auto simp: record_whole_def)
    qed
  qed
qed

theorem record_written_whole_witness:
  "record_whole example_world \<and>
   main [''absystool'', ''login''] example_world = example_outcome \<and>
   record_whole (snd example_outcome) \<and>
   both_fields [(''auth_id'', JString ''O7/ID2''), (''user_id'', JString ''jane'')]"
proof -
  have w: "record_whole example_world"
    by (simp add: record_whole_def example_world_fields)
  have m: "main [''absystool'', ''login''] example_world = (fst example_outcome, snd example_outcome)"
    using example_login by (simp add: main_def)
  from record_written_whole [OF w m] w m show ?thesis
    by (simp add: example_outcome_def)
qed

text \<open>
  C9 as stated fails: nothing checks that a record read from the file is whole. A file
  with \<open>auth_id\<close> alone is taken as a session by the session check (no login follows),
  and \<^verbatim>\<open>status\<close> then raises \<^verbatim>\<open>KeyError\<close> at \<open>user_id\<close>.
\<close>

theorem partial_record_taken_as_session:
  "ensure_auth new_client
     (example_world\<lparr>authid_file := Some (Parsed (JObject [(''auth_id'', JString ''O7/ID2'')]))\<rparr>) =
   (Inr \<lparr>creds = [(''auth_id'', JString ''O7/ID2'')], base = ABNETSYS_BASE @ ''/O7/ID2''\<rparr>,
         example_world\<lparr>authid_file := Some (Parsed (JObject [(''auth_id'', JString ''O7/ID2'')])),
                        sent := [GET (ABNETSYS_BASE @ ''/O7/ID2'')]\<rparr>) \<and>
   status new_client
     (example_world\<lparr>authid_file := Some (Parsed (JObject [(''auth_id'', JString ''O7/ID2'')]))\<rparr>) =
   (Inl KeyError,
         example_world\<lparr>authid_file := Some (Parsed (JObject [(''auth_id'', JString ''O7/ID2'')])),
                        sent := [GET (ABNETSYS_BASE @ ''/O7/ID2/NT1?ACC=101''),
                                 GET (ABNETSYS_BASE @ ''/O7/ID2'')]\<rparr>)"
proof -
  let ?w = "example_world\<lparr>authid_file := Some (Parsed (JObject [(''auth_id'', JString ''O7/ID2'')]))\<rparr>"
  have ea: "ensure_auth new_client ?w =
      (Inr (new_client\<lparr>creds := [(''auth_id'', JString ''O7/ID2'')],
                   base := ABNETSYS_BASE @ ''/'' @ ''O7/ID2''\<rparr>),
            ?w\<lparr>sent := GET (ABNETSYS_BASE @ ''/'' @ ''O7/ID2'') # sent ?w\<rparr>)"
    by (rule ensure_auth_probe_accepted [where probe = "\<lparr>res_text = ''<reader>'', res_url = ABNETSYS_BASE @ ''/O7/ID2''\<rparr>"])
      (simp_all add: example_world_fields example_portal_def timeout_reader)
  have "example_parser ''<reader>'' = Inr reader_page"
    by (simp add: example_parser_def)
  then have "status new_client ?w =
      (Inl KeyError, ?w\<lparr>sent := [GET (ABNETSYS_BASE @ ''/O7/ID2/NT1?ACC=101''),
                                 GET (ABNETSYS_BASE @ ''/O7/ID2'')]\<rparr>)"
    by (simp add: status_def ea)
      (simp add: status_page_def http_def example_world_fields example_portal_def
        and_then_def session_name_reader new_client_def)
  with ea show ?thesis by (simp add: new_client_def example_world_fields)
qed

subsection \<open>Pages without the expected nodes\<close>

lemma xpath_attr_nodes:
  "xpath_attr tg key val name tree =
     map (\<lambda>e. the (map_of (attrib e) name)) (nodes_with tg key val name tree)"
  by (simp add: xpath_attr_def nodes_with_def List.map_filter_def comp_def conj_ac)


lemma refresh_present_returns: "\<not> refresh_missing tree \<Longrightarrow> \<exists>path. refresh_path tree = Inr path"
proof -
  assume a: "\<not> refresh_missing tree"
  then obtain e es where n: "nodes_with ''meta'' ''http-equiv'' ''Refresh'' ''content'' tree = e # es"
    and c: "contains ''URL='' (the (map_of (attrib e) ''content''))"
    by (auto simp: refresh_missing_def split: list.splits)
  from c have "item (str_split ''URL='' (the (map_of (attrib e) ''content''))) (Suc 0) =
      Inr (str_split ''URL='' (the (map_of (attrib e) ''content'')) ! Suc 0)"
    by (intro item_split_second_present) simp_all
  with n show ?thesis
    by (simp add: refresh_path_def xpath_attr_nodes and_then_def item_split_first) (simp add: item_def)
qed


lemma anchor_present_returns: "\<not> anchor_missing tree \<Longrightarrow> \<exists>name. session_name tree = Inr name"
proof -
  assume a: "\<not> anchor_missing tree"
  then obtain e es where n: "nodes_with ''a'' ''id'' ''lecidentify'' ''title'' tree = e # es"
    and c: "contains close_session (the (map_of (attrib e) ''title''))"
    by (auto simp: anchor_missing_def split: list.splits)
  from c have "item (str_split close_session (the (map_of (attrib e) ''title''))) (Suc 0) =
      Inr (str_split close_session (the (map_of (attrib e) ''title'')) ! Suc 0)"
    by (intro item_split_second_present) (simp_all add: close_session_def)
  with n show ?thesis
    by (simp add: session_name_def xpath_attr_nodes and_then_def) (simp add: item_def)
qed


lemma marker_present_returns:
  "contains ''abnetopac/'' url \<Longrightarrow> \<exists>token. session_token url = Inr token"
  by (simp add: session_token_def and_then_def item_split_second_present item_split_first)














lemma session_check_ID3:
  "ensure_auth new_client (example_world\<lparr>authid_file := Some (saved ''O7/ID3'')\<rparr>) =
     (Inr (new_client\<lparr>creds := [(''auth_id'', JString ''O7/ID3''), (''user_id'', JString ''jane'')],
                  base := ABNETSYS_BASE @ ''/'' @ ''O7/ID3''\<rparr>),
           example_world\<lparr>authid_file := Some (saved ''O7/ID3''),
                          sent := [GET (ABNETSYS_BASE @ ''/'' @ ''O7/ID3'')]\<rparr>)"
  using ensure_auth_probe_accepted [of "example_world\<lparr>authid_file := Some (saved ''O7/ID3'')\<rparr>"
      "[(''auth_id'', JString ''O7/ID3''), (''user_id'', JString ''jane'')]" "''O7/ID3''"
      "\<lparr>res_text = ''<reader>'', res_url = ABNETSYS_BASE @ ''/O7/ID3''\<rparr>" new_client]
  by (simp add: saved_def example_world_fields example_portal_def timeout_reader)



subsection \<open>The rows of the loans page\<close>

lemma is_digit_chars:
  assumes "is_digit c"
  shows "\<not> is_space c" "c \<noteq> CHR ''/''" "c \<noteq> CHR ''-''" "c \<noteq> CHR ''+''" "c \<noteq> CHR ''_''"
    "\<not> is_int_space c"
  using assms by (auto simp: is_digit_def is_space_def is_int_space_def Let_def)

lemma str_split_from_Nil: "str_split_from sep acc [] = [rev acc]"
  by (subst str_split_from.simps) simp

lemma str_split_from_sep:
  "str_split_from [c] acc (c # s) = rev acc # str_split_from [c] [] s"
  by (subst str_split_from.simps) simp

lemma str_split_from_other:
  "x \<noteq> c \<Longrightarrow> str_split_from [c] acc (x # s) = str_split_from [c] (x # acc) s"
  by (subst str_split_from.simps) simp

lemma str_strip_digits:
  assumes "list_all is_digit ds"
  shows "str_strip ds = ds"
proof (cases ds)
  case Nil
  then show ?thesis by (simp add: str_strip_def)
next
  case (Cons c cs)
  with assms have first: "\<not> is_space c" by (simp add: is_digit_chars)
  from Cons have "last ds \<in> set ds" by (intro last_in_set) simp
  with assms have "is_digit (last ds)" by (simp add: list_all_iff)
  moreover from Cons have "hd (rev ds) = last ds" by (subst hd_rev) simp_all
  ultimately have "\<not> is_space (hd (rev ds))" by (simp add: is_digit_chars)
  moreover have "rev ds \<noteq> []" using Cons by simp
  ultimately have "dropWhile is_space (rev ds) = rev ds"
    by (cases "rev ds") simp_all
  moreover from first Cons have "dropWhile is_space ds = ds" by simp
  ultimately show ?thesis by (simp add: str_strip_def)
qed

lemma int_strip_digits:
  assumes "list_all is_digit ds"
  shows "int_strip ds = ds"
proof (cases ds)
  case Nil
  then show ?thesis by (simp add: int_strip_def)
next
  case (Cons c cs)
  with assms have first: "\<not> is_int_space c" by (simp add: is_digit_chars)
  from Cons have "last ds \<in> set ds" by (intro last_in_set) simp
  with assms have "is_digit (last ds)" by (simp add: list_all_iff)
  moreover from Cons have "hd (rev ds) = last ds" by (subst hd_rev) simp_all
  ultimately have "\<not> is_int_space (hd (rev ds))" by (simp add: is_digit_chars)
  moreover have "rev ds \<noteq> []" using Cons by simp
  ultimately have "dropWhile is_int_space (rev ds) = rev ds"
    by (cases "rev ds") simp_all
  moreover from first Cons have "dropWhile is_int_space ds = ds" by simp
  ultimately show ?thesis by (simp add: int_strip_def)
qed

lemma digits_from_after_digit:
  "list_all is_digit ds \<Longrightarrow>
     digits_from acc True ds = Some (foldl (\<lambda>n c. n * 10 + digit_val c) acc ds)"
  by (induction ds arbitrary: acc) simp_all

lemma digits_from_digits:
  assumes "list_all is_digit ds" and "ds \<noteq> []"
  shows "digits_from acc b ds = Some (foldl (\<lambda>n c. n * 10 + digit_val c) acc ds)"
proof -
  from assms obtain c cs where ds: "ds = c # cs" by (cases ds) auto
  with assms have "is_digit c" "list_all is_digit cs" by simp_all
  with ds digits_from_after_digit [of cs "acc * 10 + digit_val c"] show ?thesis by simp
qed

lemma py_int_digits:
  assumes "list_all is_digit ds" and "ds \<noteq> []" and "length ds \<le> 4300"
  shows "py_int ds = Inr (number ds)"
proof -
  from assms obtain c cs where ds: "ds = c # cs" by (cases ds) auto
  with assms have sign: "c \<noteq> CHR ''-''" "c \<noteq> CHR ''+''" by (simp_all add: is_digit_chars)
  have few: "\<not> 4300 < length (filter is_digit ds)"
    using le_trans [OF length_filter_le [of is_digit ds] assms(3)] by (simp add: not_less)
  have strip: "int_strip (c # cs) = c # cs"
    using int_strip_digits [OF assms(1)] ds by simp
  from digits_from_digits [OF assms(1,2), of 0 False] few sign show ?thesis
    unfolding ds py_int_def number_def strip by (simp del: digits_from.simps filter.simps)
qed

lemma ddmmyyyy_shape:
  assumes "ddmmyyyy s = Some d"
  obtains d1 d2 m1 m2 y1 y2 y3 y4 where
    "s = [d1, d2, CHR ''/'', m1, m2, CHR ''/'', y1, y2, y3, y4]"
    "list_all is_digit [d1, d2, m1, m2, y1, y2, y3, y4]"
    "make_date (number [y1, y2, y3, y4]) (number [m1, m2]) (number [d1, d2]) = Inr d"
  using assms
  by (cases s rule: ddmmyyyy.cases) (auto split: if_splits sum.splits)

lemma due_date_ddmmyyyy:
  assumes "ddmmyyyy s = Some d"
  shows "due_date s = Inr d"
proof -
  from assms obtain d1 d2 m1 m2 y1 y2 y3 y4 where
    s: "s = [d1, d2, CHR ''/'', m1, m2, CHR ''/'', y1, y2, y3, y4]" and
    digits: "list_all is_digit [d1, d2, m1, m2, y1, y2, y3, y4]" and
    made: "make_date (number [y1, y2, y3, y4]) (number [m1, m2]) (number [d1, d2]) = Inr d"
    by (rule ddmmyyyy_shape)
  from digits have "str_split ''/'' s = [[d1, d2], [m1, m2], [y1, y2, y3, y4]]"
    unfolding s str_split_def
    by (simp add: str_split_from_other str_split_from_sep str_split_from_Nil is_digit_chars)
  moreover from digits have "py_int [y1, y2, y3, y4] = Inr (number [y1, y2, y3, y4])"
    "py_int [m1, m2] = Inr (number [m1, m2])" "py_int [d1, d2] = Inr (number [d1, d2])"
    by (simp_all add: py_int_digits)
  ultimately show ?thesis using made
    by (simp add: due_date_def Let_def item_def and_then_def)
qed

lemma loan_row_spec:
  assumes "spec_loan now row = Some l"
  shows "loan_row now row = Inr (table_row l)"
proof -
  from assms obtain c1 c2 c3 c4 cs t3 t4 d where
    cells: "getchildren row = c1 # c2 # c3 # c4 # cs" and
    texts: "el_text c3 = Some t3" "el_text c4 = Some t4" and
    date: "ddmmyyyy (str_strip t4) = Some d" and
    l: "l = \<lparr>title = str_strip t3, due = d, remaining_days = days_between d now\<rparr>"
    by (auto simp: spec_loan_def split: list.splits option.splits)
  from due_date_ddmmyyyy [OF date] cells texts l show ?thesis
    by (simp add: loan_row_def cell_text_def item_def and_then_def table_row_def)
qed

lemma loan_rows_spec:
  "\<forall>row \<in> set rows. spec_loan now row \<noteq> None \<Longrightarrow>
     loan_rows now rows = Inr (map (\<lambda>row. table_row (the (spec_loan now row))) rows)"
proof (induction rows)
  case Nil
  show ?case by simp
next
  case (Cons row rows)
  then obtain l where "spec_loan now row = Some l" by auto
  with loan_row_spec [OF this] Cons show ?case by (simp add: and_then_def)
qed

lemma list_loans_page:
  assumes "ensure_auth self w = (Inr self1, w1)"
      and "server w1 (sent w1) (GET (base self1 @ ''/NT29?ACC=210'')) = Inr res"
      and "fromstring w1 (res_text res) = Inr tree"
  shows "list_loans self w =
           (case loan_rows (today w1) (drop 1 (xpath_rows tree)) of
                   Inl e \<Rightarrow> (Inl e, w1\<lparr>sent := GET (base self1 @ ''/NT29?ACC=210'') # sent w1\<rparr>)
                 | Inr rows \<Rightarrow>
                     (Inr self1,
                      w1\<lparr>sent := GET (base self1 @ ''/NT29?ACC=210'') # sent w1,
                         stdout := stdout w1 @ [Table [''Title'', ''Due date'', ''Remaining''] rows]\<rparr>))"
  using assms
  by (simp add: list_loans_def loans_page_def http_def print_def split: sum.splits)


lemma maps_to_loans:
  "\<forall>row \<in> set rows. spec_loan now row \<noteq> None \<Longrightarrow>
     map Some (map (\<lambda>row. the (spec_loan now row)) rows) = map (spec_loan now) rows"
  by (induction rows) auto

text \<open>
  C7. On a loans page whose query finds a header row and then \<open>N\<close> rows, each with at
  least four cells, text in the third and a date \<^verbatim>\<open>DD/MM/YYYY\<close> (white space around it
  allowed) in the fourth, \<^verbatim>\<open>list\<close> prints one table of exactly \<open>N\<close> rows, the row of each
  loan record in the order of the page: the title is the stripped third cell, the date
  the one the fourth cell names, and the days remaining the date minus today, negative
  when the loan is overdue. From the first to the tenth of January 2024 that is \<open>-9\<close>.
\<close>

theorem list_prints_loans:
  assumes "ensure_auth self w = (Inr self1, w1)"
      and "server w1 (sent w1) (GET (base self1 @ ''/NT29?ACC=210'')) = Inr res"
      and "fromstring w1 (res_text res) = Inr tree"
      and "xpath_rows tree = header # rows"
      and "\<forall>row \<in> set rows. spec_loan (today w1) row \<noteq> None"
  shows "(\<exists>loans. map Some loans = map (spec_loan (today w1)) rows \<and>
            length loans = length rows \<and>
            list_loans self w =
              (Inr self1,
                    w1\<lparr>sent := GET (base self1 @ ''/NT29?ACC=210'') # sent w1,
                       stdout := stdout w1 @
                         [Table [''Title'', ''Due date'', ''Remaining''] (map table_row loans)]\<rparr>)) \<and>
         days_between \<lparr>year = 2024, month = 1, day = 1\<rparr> \<lparr>year = 2024, month = 1, day = 10\<rparr> = - 9"
proof -
  let ?loans = "map (\<lambda>row. the (spec_loan (today w1) row)) rows"
  have "loan_rows (today w1) (drop 1 (xpath_rows tree)) = Inr (map table_row ?loans)"
    using loan_rows_spec [OF assms(5)] assms(4) by (simp add: comp_def)
  with list_loans_page [OF assms(1-3)]
  have "list_loans self w =
              (Inr self1,
                    w1\<lparr>sent := GET (base self1 @ ''/NT29?ACC=210'') # sent w1,
                       stdout := stdout w1 @
                         [Table [''Title'', ''Due date'', ''Remaining''] (map table_row ?loans)]\<rparr>)"
    by simp
  moreover have "map Some ?loans = map (spec_loan (today w1)) rows"
    using assms(5) by (rule maps_to_loans)
  moreover have "length ?loans = length rows" by simp
  moreover have "days_between \<lparr>year = 2024, month = 1, day = 1\<rparr>
      \<lparr>year = 2024, month = 1, day = 10\<rparr> = - 9"
    by code_simp
  ultimately show ?thesis by blast
qed

lemma session_check_ID2:
  "ensure_auth new_client (example_world\<lparr>authid_file := Some (saved ''O7/ID2'')\<rparr>) =
     (Inr (new_client\<lparr>creds := [(''auth_id'', JString ''O7/ID2''), (''user_id'', JString ''jane'')],
                  base := ABNETSYS_BASE @ ''/'' @ ''O7/ID2''\<rparr>),
           example_world\<lparr>authid_file := Some (saved ''O7/ID2''),
                          sent := [GET (ABNETSYS_BASE @ ''/'' @ ''O7/ID2'')]\<rparr>)"
  using ensure_auth_probe_accepted [of "example_world\<lparr>authid_file := Some (saved ''O7/ID2'')\<rparr>"
      "[(''auth_id'', JString ''O7/ID2''), (''user_id'', JString ''jane'')]" "''O7/ID2''"
      "\<lparr>res_text = ''<reader>'', res_url = ABNETSYS_BASE @ ''/O7/ID2''\<rparr>" new_client]
  by (simp add: saved_def example_world_fields example_portal_def timeout_reader)

lemma session_check_ID4:
  "ensure_auth new_client (example_world\<lparr>authid_file := Some (saved ''O7/ID4'')\<rparr>) =
     (Inr (new_client\<lparr>creds := [(''auth_id'', JString ''O7/ID4''), (''user_id'', JString ''jane'')],
                  base := ABNETSYS_BASE @ ''/'' @ ''O7/ID4''\<rparr>),
           example_world\<lparr>authid_file := Some (saved ''O7/ID4''),
                          sent := [GET (ABNETSYS_BASE @ ''/'' @ ''O7/ID4'')]\<rparr>)"
  using ensure_auth_probe_accepted [of "example_world\<lparr>authid_file := Some (saved ''O7/ID4'')\<rparr>"
      "[(''auth_id'', JString ''O7/ID4''), (''user_id'', JString ''jane'')]" "''O7/ID4''"
      "\<lparr>res_text = ''<reader>'', res_url = ABNETSYS_BASE @ ''/O7/ID4''\<rparr>" new_client]
  by (simp add: saved_def example_world_fields example_portal_def timeout_reader)

lemma example_loans_rows:
  "xpath_rows (loans_table rows) =
     Element ''tr'' [] None [td ''No'', td ''Code'', td ''Title'', td ''Due''] #
     concat (map (xpath_rows_in False True) rows)"
  by (simp add: xpath_rows_def loans_table_def td_def)

lemma example_rows_found:
  "xpath_rows_in False True quijote_row = [quijote_row]"
  "xpath_rows_in False True celestina_row = [celestina_row]"
  "xpath_rows_in False True dashes_row = [dashes_row]"
  "xpath_rows_in False True loose_row = [loose_row]"
  "xpath_rows_in False True linked_row = [linked_row]"
  "xpath_rows_in False True february_row = [february_row]"
  by (simp_all add: quijote_row_def celestina_row_def dashes_row_def loose_row_def linked_row_def
      february_row_def td_def)

lemma example_loans:
  "spec_loan \<lparr>year = 2024, month = 1, day = 10\<rparr> quijote_row =
     Some \<lparr>title = ''Don Quijote'', due = \<lparr>year = 2024, month = 1, day = 1\<rparr>, remaining_days = - 9\<rparr>"
  "spec_loan \<lparr>year = 2024, month = 1, day = 10\<rparr> celestina_row =
     Some \<lparr>title = ''La Celestina'', due = \<lparr>year = 2024, month = 1, day = 25\<rparr>, remaining_days = 15\<rparr>"
  by code_simp+

lemma example_table_rows:
  "table_row \<lparr>title = ''Don Quijote'', due = \<lparr>year = 2024, month = 1, day = 1\<rparr>, remaining_days = - 9\<rparr>
     = (''Don Quijote'', \<lparr>year = 2024, month = 1, day = 1\<rparr>, ''-9 day(s)'')"
  "table_row \<lparr>title = ''La Celestina'', due = \<lparr>year = 2024, month = 1, day = 25\<rparr>, remaining_days = 15\<rparr>
     = (''La Celestina'', \<lparr>year = 2024, month = 1, day = 25\<rparr>, ''15 day(s)'')"
  by code_simp+

theorem list_prints_loans_witness:
  "list_loans new_client (example_world\<lparr>authid_file := Some (saved ''O7/ID2'')\<rparr>) =
     (Inr \<lparr>creds = [(''auth_id'', JString ''O7/ID2''), (''user_id'', JString ''jane'')],
                base = ABNETSYS_BASE @ ''/O7/ID2''\<rparr>,
           example_world\<lparr>authid_file := Some (saved ''O7/ID2''),
             sent := [GET (ABNETSYS_BASE @ ''/O7/ID2/NT29?ACC=210''), GET (ABNETSYS_BASE @ ''/O7/ID2'')],
             stdout := [Table [''Title'', ''Due date'', ''Remaining'']
                          [(''Don Quijote'', \<lparr>year = 2024, month = 1, day = 1\<rparr>, ''-9 day(s)''),
                           (''La Celestina'', \<lparr>year = 2024, month = 1, day = 25\<rparr>, ''15 day(s)'')]]\<rparr>)"
proof -
  let ?w = "example_world\<lparr>authid_file := Some (saved ''O7/ID2'')\<rparr>"
  let ?w1 = "example_world\<lparr>authid_file := Some (saved ''O7/ID2''),
                          sent := [GET (ABNETSYS_BASE @ ''/'' @ ''O7/ID2'')]\<rparr>"
  let ?self1 = "new_client\<lparr>creds := [(''auth_id'', JString ''O7/ID2''), (''user_id'', JString ''jane'')],
                  base := ABNETSYS_BASE @ ''/'' @ ''O7/ID2''\<rparr>"
  have page: "server ?w1 (sent ?w1) (GET (base ?self1 @ ''/NT29?ACC=210'')) =
      Inr \<lparr>res_text = ''<loans>'', res_url = ABNETSYS_BASE @ ''/O7/ID2/NT29?ACC=210''\<rparr>"
    by (simp add: example_world_fields example_portal_def)
  have parsed: "fromstring ?w1 (res_text \<lparr>res_text = ''<loans>'', res_url = ABNETSYS_BASE @ ''/O7/ID2/NT29?ACC=210''\<rparr>) =
      Inr (loans_table [quijote_row, celestina_row])"
    by (simp add: example_world_fields example_parser_def)
  have rows: "xpath_rows (loans_table [quijote_row, celestina_row]) =
      Element ''tr'' [] None [td ''No'', td ''Code'', td ''Title'', td ''Due''] #
      [quijote_row, celestina_row]"
    by (simp add: example_loans_rows example_rows_found)
  have loans: "\<forall>row \<in> set [quijote_row, celestina_row]. spec_loan (today ?w1) row \<noteq> None"
    by (simp add: example_world_fields example_loans)
  from list_prints_loans [OF session_check_ID2 page parsed rows loans]
  obtain loans where
    "map Some loans = map (spec_loan (today ?w1)) [quijote_row, celestina_row]" and
    run: "list_loans new_client ?w =
              (Inr ?self1,
                    ?w1\<lparr>sent := GET (base ?self1 @ ''/NT29?ACC=210'') # sent ?w1,
                       stdout := stdout ?w1 @
                         [Table [''Title'', ''Due date'', ''Remaining''] (map table_row loans)]\<rparr>)"
    by blast
  then have "loans = [\<lparr>title = ''Don Quijote'', due = \<lparr>year = 2024, month = 1, day = 1\<rparr>, remaining_days = - 9\<rparr>,
                      \<lparr>title = ''La Celestina'', due = \<lparr>year = 2024, month = 1, day = 25\<rparr>, remaining_days = 15\<rparr>]"
    by (auto simp: example_world_fields example_loans)
  with run show ?thesis
    by (simp add: example_table_rows example_world_fields new_client_def)
qed


lemma session_check_ID5:
  "ensure_auth new_client (example_world\<lparr>authid_file := Some (saved ''O7/ID5'')\<rparr>) =
     (Inr (new_client\<lparr>creds := [(''auth_id'', JString ''O7/ID5''), (''user_id'', JString ''jane'')],
             base := ABNETSYS_BASE @ ''/'' @ ''O7/ID5''\<rparr>),
      example_world\<lparr>authid_file := Some (saved ''O7/ID5''),
                     sent := [GET (ABNETSYS_BASE @ ''/'' @ ''O7/ID5'')]\<rparr>)"
  using ensure_auth_probe_accepted [of "example_world\<lparr>authid_file := Some (saved ''O7/ID5'')\<rparr>"
      "[(''auth_id'', JString ''O7/ID5''), (''user_id'', JString ''jane'')]" "''O7/ID5''"
      "\<lparr>res_text = ''<reader>'', res_url = ABNETSYS_BASE @ ''/O7/ID5''\<rparr>" new_client]
  by (simp add: saved_def example_world_fields example_portal_def timeout_reader)

lemma session_check_ID6:
  "ensure_auth new_client (example_world\<lparr>authid_file := Some (saved ''O7/ID6'')\<rparr>) =
     (Inr (new_client\<lparr>creds := [(''auth_id'', JString ''O7/ID6''), (''user_id'', JString ''jane'')],
             base := ABNETSYS_BASE @ ''/'' @ ''O7/ID6''\<rparr>),
      example_world\<lparr>authid_file := Some (saved ''O7/ID6''),
                     sent := [GET (ABNETSYS_BASE @ ''/'' @ ''O7/ID6'')]\<rparr>)"
  using ensure_auth_probe_accepted [of "example_world\<lparr>authid_file := Some (saved ''O7/ID6'')\<rparr>"
      "[(''auth_id'', JString ''O7/ID6''), (''user_id'', JString ''jane'')]" "''O7/ID6''"
      "\<lparr>res_text = ''<reader>'', res_url = ABNETSYS_BASE @ ''/O7/ID6''\<rparr>" new_client]
  by (simp add: saved_def example_world_fields example_portal_def timeout_reader)

text \<open>What \<^verbatim>\<open>int\<close> and \<^verbatim>\<open>date\<close> raise.\<close>

lemma py_int_raises: "py_int s = Inl e \<Longrightarrow> e = ValueError"
  by (simp add: py_int_def Let_def split: prod.splits option.splits if_splits)

lemma make_date_raises: "make_date y m d = Inl e \<Longrightarrow> e = OverflowError \<or> e = ValueError"
  by (simp add: make_date_def split: if_splits)

lemma split_slashes: "length (str_split ''/'' cell) = Suc (count_list cell CHR ''/'')"
  by (simp add: str_split_def str_split_from_count)

lemma date_fields_None: "date_fields cell = None \<longleftrightarrow> count_list cell CHR ''/'' < 2"
  using split_slashes [of cell] by (auto simp: date_fields_def split: list.splits)

lemma date_fields_Some:
  "date_fields cell = Some (d, m, y) \<Longrightarrow> \<exists>rest. str_split ''/'' cell = d # m # y # rest"
  by (auto simp: date_fields_def split: list.splits)

text \<open>The date of a cell is made exactly when nothing is wrong with the cell.\<close>

lemma due_date_raises:
  assumes "date_cell_error cell = Some e"
  shows "due_date cell = Inl e"
proof (cases "date_fields cell")
  case None
  then have "count_list cell CHR ''/'' < 2" by (simp add: date_fields_None)
  with split_slashes [of cell] have "length (str_split ''/'' cell) < 3" by simp
  with None assms show ?thesis
    by (simp add: date_cell_error_def due_date_def Let_def item_def and_then_def)
next
  case (Some f)
  obtain d m y where f: "f = (d, m, y)" by (cases f)
  from date_fields_Some [OF Some [unfolded f]] obtain rest where
    parts: "str_split ''/'' cell = d # m # y # rest" by blast
  from assms Some f parts show ?thesis
    by (auto simp: date_cell_error_def due_date_def Let_def item_def and_then_def
        dest: py_int_raises split: sum.splits)
qed

lemma due_date_returns:
  assumes "date_cell_error cell = None"
  shows "\<exists>accepted. due_date cell = Inr accepted"
proof (cases "date_fields cell")
  case None
  with assms show ?thesis by (simp add: date_cell_error_def)
next
  case (Some f)
  obtain d m y where f: "f = (d, m, y)" by (cases f)
  from date_fields_Some [OF Some [unfolded f]] obtain rest where
    parts: "str_split ''/'' cell = d # m # y # rest" by blast
  from assms Some f parts show ?thesis
    by (auto simp: date_cell_error_def due_date_def Let_def item_def and_then_def
        split: sum.splits)
qed

lemma date_cell_error_exns:
  "date_cell_error cell = Some e \<Longrightarrow> e = IndexError \<or> e = ValueError \<or> e = OverflowError"
  by (auto simp: date_cell_error_def dest: make_date_raises split: option.splits sum.splits)

text \<open>A row of the table is made exactly when nothing is wrong with the row.\<close>

lemma loan_row_raises:
  assumes "row_error row = Some e"
  shows "loan_row now row = Inl e"
  using assms
  by (auto simp: row_error_def loan_row_def cell_text_def item_def and_then_def due_date_raises
      split: list.splits option.splits)

lemma loan_row_returns:
  assumes "row_error row = None"
  shows "\<exists>r. loan_row now row = Inr r"
proof -
  from assms obtain c1 c2 c3 c4 cs t3 t4 where
    cells: "getchildren row = c1 # c2 # c3 # c4 # cs" and
    texts: "el_text c3 = Some t3" "el_text c4 = Some t4" and
    cell: "date_cell_error (str_strip t4) = None"
    by (auto simp: row_error_def split: list.splits option.splits)
  from due_date_returns [OF cell] obtain accepted where "due_date (str_strip t4) = Inr accepted"
    by blast
  with cells texts show ?thesis
    by (simp add: loan_row_def cell_text_def item_def and_then_def)
qed

lemma row_error_short: "short_row row \<Longrightarrow> row_error row = Some (short_row_error row)"
  by (auto simp: short_row_def row_error_def short_row_error_def split: list.splits option.splits)

lemma row_error_few_slashes:
  assumes "few_slashes row"
  shows "row_error row = Some IndexError"
proof -
  from assms obtain c1 c2 c3 c4 cs t3 t4 where
    cells: "getchildren row = c1 # c2 # c3 # c4 # cs" "el_text c3 = Some t3" "el_text c4 = Some t4"
    and few: "count_list (str_strip t4) CHR ''/'' < 2"
    by (auto simp: few_slashes_def split: list.splits option.splits)
  from few have "date_fields (str_strip t4) = None" by (simp add: date_fields_None)
  with cells show ?thesis by (simp add: row_error_def date_cell_error_def)
qed

lemma row_error_no_text:
  assumes "getchildren row = c1 # c2 # c3 # c4 # cs" and "el_text c3 = None \<or> el_text c4 = None"
  shows "row_error row = Some AttributeError"
  using assms by (auto simp: row_error_def split: option.splits)

lemma row_error_exns:
  "row_error row = Some e \<Longrightarrow>
     e = IndexError \<or> e = AttributeError \<or> e = ValueError \<or> e = OverflowError"
  by (auto simp: row_error_def dest: date_cell_error_exns split: list.splits option.splits)

lemma row_error_spec:
  assumes "spec_loan now row = Some l"
  shows "row_error row = None"
proof (cases "row_error row")
  case None
  then show ?thesis .
next
  case (Some e)
  from loan_row_raises [OF this, of now] loan_row_spec [OF assms] show ?thesis by simp
qed

lemma loan_rows_first_bad:
  assumes "\<forall>row \<in> set before. row_error row = None"
      and "row_error bad = Some e"
  shows "loan_rows now (before @ bad # after) = Inl e"
  using assms(1)
proof (induction before)
  case Nil
  from loan_row_raises [OF assms(2), of now] show ?case by (simp add: and_then_def)
next
  case (Cons row before)
  from Cons.prems loan_row_returns [of row now] obtain r where "loan_row now row = Inr r"
    by auto
  with Cons show ?case by (simp add: and_then_def)
qed

lemma loan_rows_all_good:
  assumes "\<forall>row \<in> set rows. row_error row = None"
  shows "\<exists>table. list_all2 (\<lambda>row r. loan_row now row = Inr r) rows table \<and>
           loan_rows now rows = Inr table"
  using assms
proof (induction rows)
  case Nil
  show ?case by simp
next
  case (Cons row rows)
  then obtain table where table: "list_all2 (\<lambda>row r. loan_row now row = Inr r) rows table"
    "loan_rows now rows = Inr table" by auto
  from Cons.prems loan_row_returns [of row now] obtain r where r: "loan_row now row = Inr r"
    by auto
  from table r have "list_all2 (\<lambda>row r. loan_row now row = Inr r) (row # rows) (r # table) \<and>
      loan_rows now (row # rows) = Inr (r # table)"
    by (simp add: and_then_def)
  then show ?case by blast
qed

text \<open>
  C3 (as the program has it). The loop of \<^verbatim>\<open>list\<close> checks nothing, and the first row of
  the loans page with which something is wrong ends \<^verbatim>\<open>list\<close> with the exception of the
  failed step, caught nowhere; no row is skipped and no table is printed. When nothing
  is wrong with any row, the table has one row for each. What is wrong with a row:

    \<^item> fewer than four cells: \<^verbatim>\<open>IndexError\<close>, or \<^verbatim>\<open>AttributeError\<close> when there are three
      cells and the third has no text;

    \<^item> four cells the third or fourth of which has no text of its own (a title inside
      a link): \<^verbatim>\<open>AttributeError\<close>, whatever the date looks like;

    \<^item> text in both and fewer than two slashes in the stripped fourth cell (the wrong
      delimiter, \<^verbatim>\<open>31-02-2024\<close>): \<^verbatim>\<open>IndexError\<close>;

    \<^item> two slashes or more and a first, second or third field that \<^verbatim>\<open>int\<close> does not read,
      or that \<^verbatim>\<open>date\<close> does not accept as day, month and year (\<^verbatim>\<open>31/02/2024\<close>):
      \<^verbatim>\<open>ValueError\<close>, or \<^verbatim>\<open>OverflowError\<close> for a number beyond a C integer.

  Nothing else is raised for a row, and nothing is wrong with a row that holds a loan
  record with a date \<^verbatim>\<open>DD/MM/YYYY\<close>.
\<close>

theorem malformed_row_raises:
  assumes "ensure_auth self w = (Inr self1, w1)"
      and "server w1 (sent w1) (GET (base self1 @ ''/NT29?ACC=210'')) = Inr res"
      and "fromstring w1 (res_text res) = Inr tree"
  shows "(\<forall>before bad after e.
            drop 1 (xpath_rows tree) = before @ bad # after \<and>
            (\<forall>row \<in> set before. row_error row = None) \<and> row_error bad = Some e
            \<longrightarrow> list_loans self w =
                  (Inl e, w1\<lparr>sent := GET (base self1 @ ''/NT29?ACC=210'') # sent w1\<rparr>)) \<and>
         ((\<forall>row \<in> set (drop 1 (xpath_rows tree)). row_error row = None)
            \<longrightarrow> (\<exists>table.
                   list_all2 (\<lambda>row r. loan_row (today w1) row = Inr r)
                     (drop 1 (xpath_rows tree)) table \<and>
                   list_loans self w =
                     (Inr self1,
                      w1\<lparr>sent := GET (base self1 @ ''/NT29?ACC=210'') # sent w1,
                         stdout := stdout w1 @
                           [Table [''Title'', ''Due date'', ''Remaining''] table]\<rparr>))) \<and>
         (\<forall>row. short_row row \<longrightarrow> row_error row = Some (short_row_error row)) \<and>
         (\<forall>row c1 c2 c3 c4 cs.
            getchildren row = c1 # c2 # c3 # c4 # cs \<and> (el_text c3 = None \<or> el_text c4 = None)
            \<longrightarrow> row_error row = Some AttributeError) \<and>
         (\<forall>row. few_slashes row \<longrightarrow> row_error row = Some IndexError) \<and>
         (\<forall>row c1 c2 c3 c4 cs t3 t4.
            getchildren row = c1 # c2 # c3 # c4 # cs \<and> el_text c3 = Some t3 \<and> el_text c4 = Some t4
            \<longrightarrow> row_error row = date_cell_error (str_strip t4)) \<and>
         (\<forall>row e. row_error row = Some e
            \<longrightarrow> e = IndexError \<or> e = AttributeError \<or> e = ValueError \<or> e = OverflowError) \<and>
         (\<forall>row l. spec_loan (today w1) row = Some l \<longrightarrow> row_error row = None)"
proof (intro conjI allI impI)
  fix before bad after e
  assume a: "drop 1 (xpath_rows tree) = before @ bad # after \<and>
            (\<forall>row \<in> set before. row_error row = None) \<and> row_error bad = Some e"
  then have "loan_rows (today w1) (drop 1 (xpath_rows tree)) = Inl e"
    using loan_rows_first_bad [of before bad e "today w1" after] by simp
  with list_loans_page [OF assms]
  show "list_loans self w = (Inl e, w1\<lparr>sent := GET (base self1 @ ''/NT29?ACC=210'') # sent w1\<rparr>)"
    by simp
next
  assume "\<forall>row \<in> set (drop 1 (xpath_rows tree)). row_error row = None"
  from loan_rows_all_good [OF this, of "today w1"] obtain table where
    "list_all2 (\<lambda>row r. loan_row (today w1) row = Inr r) (drop 1 (xpath_rows tree)) table"
    "loan_rows (today w1) (drop 1 (xpath_rows tree)) = Inr table" by blast
  with list_loans_page [OF assms]
  have "list_all2 (\<lambda>row r. loan_row (today w1) row = Inr r) (drop 1 (xpath_rows tree)) table \<and>
        list_loans self w =
          (Inr self1,
           w1\<lparr>sent := GET (base self1 @ ''/NT29?ACC=210'') # sent w1,
              stdout := stdout w1 @ [Table [''Title'', ''Due date'', ''Remaining''] table]\<rparr>)"
    by simp
  then show "\<exists>table.
      list_all2 (\<lambda>row r. loan_row (today w1) row = Inr r) (drop 1 (xpath_rows tree)) table \<and>
      list_loans self w =
        (Inr self1,
         w1\<lparr>sent := GET (base self1 @ ''/NT29?ACC=210'') # sent w1,
            stdout := stdout w1 @ [Table [''Title'', ''Due date'', ''Remaining''] table]\<rparr>)"
    by blast
next
  fix row
  assume "short_row row"
  then show "row_error row = Some (short_row_error row)" by (rule row_error_short)
next
  fix row c1 c2 c3 c4 cs
  assume "getchildren row = c1 # c2 # c3 # c4 # cs \<and> (el_text c3 = None \<or> el_text c4 = None)"
  then show "row_error row = Some AttributeError" using row_error_no_text [of row] by blast
next
  fix row
  assume "few_slashes row"
  then show "row_error row = Some IndexError" by (rule row_error_few_slashes)
next
  fix row c1 c2 c3 c4 cs t3 t4
  assume "getchildren row = c1 # c2 # c3 # c4 # cs \<and> el_text c3 = Some t3 \<and> el_text c4 = Some t4"
  then show "row_error row = date_cell_error (str_strip t4)" by (simp add: row_error_def)
next
  fix row e
  assume "row_error row = Some e"
  then show "e = IndexError \<or> e = AttributeError \<or> e = ValueError \<or> e = OverflowError"
    by (rule row_error_exns)
next
  fix row l
  assume "spec_loan (today w1) row = Some l"
  then show "row_error row = None" by (rule row_error_spec)
qed

lemma example_row_errors:
  "row_error quijote_row = None"
  "row_error loose_row = None"
  "row_error dashes_row = Some IndexError"
  "row_error linked_row = Some AttributeError"
  "row_error february_row = Some ValueError"
  "row_error distant_row = Some OverflowError"
  by code_simp+

lemma dashes_row_facts: "few_slashes dashes_row" "\<not> short_row dashes_row"
  by code_simp+

lemma quijote_row_printed:
  "loan_row \<lparr>year = 2024, month = 1, day = 10\<rparr> quijote_row =
     Inr (''Don Quijote'', \<lparr>year = 2024, month = 1, day = 1\<rparr>, ''-9 day(s)'')"
  by code_simp

lemma loose_row_printed:
  "loan_row \<lparr>year = 2024, month = 1, day = 10\<rparr> loose_row =
     Inr (''El Buscon'', \<lparr>year = 2024, month = 2, day = 1\<rparr>, ''22 day(s)'')"
  by code_simp

lemma dashes_row_raises:
  "loan_row \<lparr>year = 2024, month = 1, day = 10\<rparr> dashes_row = Inl IndexError"
  by code_simp

theorem malformed_row_raises_witness:
  "list_loans new_client (example_world\<lparr>authid_file := Some (saved ''O7/ID3'')\<rparr>) =
     (Inl IndexError,
      example_world\<lparr>authid_file := Some (saved ''O7/ID3''),
        sent := [GET (ABNETSYS_BASE @ ''/O7/ID3/NT29?ACC=210''),
                 GET (ABNETSYS_BASE @ ''/O7/ID3'')]\<rparr>) \<and>
   list_loans new_client (example_world\<lparr>authid_file := Some (saved ''O7/ID5'')\<rparr>) =
     (Inl AttributeError,
      example_world\<lparr>authid_file := Some (saved ''O7/ID5''),
        sent := [GET (ABNETSYS_BASE @ ''/O7/ID5/NT29?ACC=210''),
                 GET (ABNETSYS_BASE @ ''/O7/ID5'')]\<rparr>) \<and>
   list_loans new_client (example_world\<lparr>authid_file := Some (saved ''O7/ID6'')\<rparr>) =
     (Inl ValueError,
      example_world\<lparr>authid_file := Some (saved ''O7/ID6''),
        sent := [GET (ABNETSYS_BASE @ ''/O7/ID6/NT29?ACC=210''),
                 GET (ABNETSYS_BASE @ ''/O7/ID6'')]\<rparr>) \<and>
   list_loans new_client (example_world\<lparr>authid_file := Some (saved ''O7/ID4'')\<rparr>) =
     (Inr \<lparr>creds = [(''auth_id'', JString ''O7/ID4''), (''user_id'', JString ''jane'')],
           base = ABNETSYS_BASE @ ''/O7/ID4''\<rparr>,
      example_world\<lparr>authid_file := Some (saved ''O7/ID4''),
        sent := [GET (ABNETSYS_BASE @ ''/O7/ID4/NT29?ACC=210''),
                 GET (ABNETSYS_BASE @ ''/O7/ID4'')],
        stdout := [Table [''Title'', ''Due date'', ''Remaining'']
                     [(''El Buscon'', \<lparr>year = 2024, month = 2, day = 1\<rparr>, ''22 day(s)'')]]\<rparr>) \<and>
   row_error dashes_row = Some IndexError \<and>
   row_error linked_row = Some AttributeError \<and>
   row_error distant_row = Some OverflowError \<and>
   row_error (Element ''tr'' [] None [td ''8'', td ''B8'']) = Some IndexError \<and>
   row_error quijote_row = None"
proof -
  let ?self = "\<lambda>a. new_client\<lparr>creds := [(''auth_id'', JString a), (''user_id'', JString ''jane'')],
                  base := ABNETSYS_BASE @ ''/'' @ a\<rparr>"
  let ?w = "\<lambda>a. example_world\<lparr>authid_file := Some (saved a),
                          sent := [GET (ABNETSYS_BASE @ ''/'' @ a)]\<rparr>"
  let ?res = "\<lambda>a page. \<lparr>res_text = page, res_url = ABNETSYS_BASE @ ''/'' @ a @ ''/NT29?ACC=210''\<rparr>"
  have dashes: "list_loans new_client (example_world\<lparr>authid_file := Some (saved ''O7/ID3'')\<rparr>) =
      (Inl IndexError,
       (?w ''O7/ID3'')\<lparr>sent := GET (base (?self ''O7/ID3'') @ ''/NT29?ACC=210'') # sent (?w ''O7/ID3'')\<rparr>)"
  proof (rule malformed_row_raises [of new_client _ "?self ''O7/ID3''" "?w ''O7/ID3''"
        "?res ''O7/ID3'' ''<dashes>''" "loans_table [quijote_row, dashes_row, celestina_row]",
        OF session_check_ID3, THEN conjunct1, rule_format,
        of "[quijote_row]" dashes_row "[celestina_row]" IndexError])
    show "server (?w ''O7/ID3'') (sent (?w ''O7/ID3''))
        (GET (base (?self ''O7/ID3'') @ ''/NT29?ACC=210'')) = Inr (?res ''O7/ID3'' ''<dashes>'')"
      by (simp add: example_world_fields example_portal_def)
    show "fromstring (?w ''O7/ID3'') (res_text (?res ''O7/ID3'' ''<dashes>'')) =
        Inr (loans_table [quijote_row, dashes_row, celestina_row])"
      by (simp add: example_world_fields example_parser_def)
    show "drop 1 (xpath_rows (loans_table [quijote_row, dashes_row, celestina_row])) =
        [quijote_row] @ dashes_row # [celestina_row] \<and>
        (\<forall>row \<in> set [quijote_row]. row_error row = None) \<and> row_error dashes_row = Some IndexError"
      by (simp add: example_loans_rows example_rows_found example_row_errors)
  qed
  have linked: "list_loans new_client (example_world\<lparr>authid_file := Some (saved ''O7/ID5'')\<rparr>) =
      (Inl AttributeError,
       (?w ''O7/ID5'')\<lparr>sent := GET (base (?self ''O7/ID5'') @ ''/NT29?ACC=210'') # sent (?w ''O7/ID5'')\<rparr>)"
  proof (rule malformed_row_raises [of new_client _ "?self ''O7/ID5''" "?w ''O7/ID5''"
        "?res ''O7/ID5'' ''<linked>''" "loans_table [linked_row]",
        OF session_check_ID5, THEN conjunct1, rule_format,
        of "[]" linked_row "[]" AttributeError])
    show "server (?w ''O7/ID5'') (sent (?w ''O7/ID5''))
        (GET (base (?self ''O7/ID5'') @ ''/NT29?ACC=210'')) = Inr (?res ''O7/ID5'' ''<linked>'')"
      by (simp add: example_world_fields example_portal_def)
    show "fromstring (?w ''O7/ID5'') (res_text (?res ''O7/ID5'' ''<linked>'')) =
        Inr (loans_table [linked_row])"
      by (simp add: example_world_fields example_parser_def)
    show "drop 1 (xpath_rows (loans_table [linked_row])) = [] @ linked_row # [] \<and>
        (\<forall>row \<in> set []. row_error row = None) \<and> row_error linked_row = Some AttributeError"
      by (simp add: example_loans_rows example_rows_found example_row_errors)
  qed
  have february: "list_loans new_client (example_world\<lparr>authid_file := Some (saved ''O7/ID6'')\<rparr>) =
      (Inl ValueError,
       (?w ''O7/ID6'')\<lparr>sent := GET (base (?self ''O7/ID6'') @ ''/NT29?ACC=210'') # sent (?w ''O7/ID6'')\<rparr>)"
  proof (rule malformed_row_raises [of new_client _ "?self ''O7/ID6''" "?w ''O7/ID6''"
        "?res ''O7/ID6'' ''<february>''" "loans_table [quijote_row, february_row]",
        OF session_check_ID6, THEN conjunct1, rule_format,
        of "[quijote_row]" february_row "[]" ValueError])
    show "server (?w ''O7/ID6'') (sent (?w ''O7/ID6''))
        (GET (base (?self ''O7/ID6'') @ ''/NT29?ACC=210'')) = Inr (?res ''O7/ID6'' ''<february>'')"
      by (simp add: example_world_fields example_portal_def)
    show "fromstring (?w ''O7/ID6'') (res_text (?res ''O7/ID6'' ''<february>'')) =
        Inr (loans_table [quijote_row, february_row])"
      by (simp add: example_world_fields example_parser_def)
    show "drop 1 (xpath_rows (loans_table [quijote_row, february_row])) =
        [quijote_row] @ february_row # [] \<and>
        (\<forall>row \<in> set [quijote_row]. row_error row = None) \<and> row_error february_row = Some ValueError"
      by (simp add: example_loans_rows example_rows_found example_row_errors)
  qed
  have "\<exists>table.
      list_all2 (\<lambda>row r. loan_row (today (?w ''O7/ID4'')) row = Inr r)
        (drop 1 (xpath_rows (loans_table [loose_row]))) table \<and>
      list_loans new_client (example_world\<lparr>authid_file := Some (saved ''O7/ID4'')\<rparr>) =
        (Inr (?self ''O7/ID4''),
         (?w ''O7/ID4'')\<lparr>sent := GET (base (?self ''O7/ID4'') @ ''/NT29?ACC=210'') # sent (?w ''O7/ID4''),
            stdout := stdout (?w ''O7/ID4'') @ [Table [''Title'', ''Due date'', ''Remaining''] table]\<rparr>)"
  proof (rule malformed_row_raises [of new_client _ "?self ''O7/ID4''" "?w ''O7/ID4''"
        "?res ''O7/ID4'' ''<loose>''" "loans_table [loose_row]",
        OF session_check_ID4, THEN conjunct2, THEN conjunct1, rule_format])
    show "server (?w ''O7/ID4'') (sent (?w ''O7/ID4''))
        (GET (base (?self ''O7/ID4'') @ ''/NT29?ACC=210'')) = Inr (?res ''O7/ID4'' ''<loose>'')"
      by (simp add: example_world_fields example_portal_def)
    show "fromstring (?w ''O7/ID4'') (res_text (?res ''O7/ID4'' ''<loose>'')) =
        Inr (loans_table [loose_row])"
      by (simp add: example_world_fields example_parser_def)
    show "row_error row = None" if "row \<in> set (drop 1 (xpath_rows (loans_table [loose_row])))" for row
      using that by (simp add: example_loans_rows example_rows_found example_row_errors)
  qed
  then obtain table where
    rows: "list_all2 (\<lambda>row r. loan_row (today (?w ''O7/ID4'')) row = Inr r) [loose_row] table" and
    run: "list_loans new_client (example_world\<lparr>authid_file := Some (saved ''O7/ID4'')\<rparr>) =
        (Inr (?self ''O7/ID4''),
         (?w ''O7/ID4'')\<lparr>sent := GET (base (?self ''O7/ID4'') @ ''/NT29?ACC=210'') # sent (?w ''O7/ID4''),
            stdout := stdout (?w ''O7/ID4'') @ [Table [''Title'', ''Due date'', ''Remaining''] table]\<rparr>)"
    by (auto simp: example_loans_rows example_rows_found)
  from rows have "table = [(''El Buscon'', \<lparr>year = 2024, month = 2, day = 1\<rparr>, ''22 day(s)'')]"
    by (auto simp: list_all2_Cons1 example_world_fields loose_row_printed)
  with run have loose: "list_loans new_client (example_world\<lparr>authid_file := Some (saved ''O7/ID4'')\<rparr>) =
     (Inr \<lparr>creds = [(''auth_id'', JString ''O7/ID4''), (''user_id'', JString ''jane'')],
           base = ABNETSYS_BASE @ ''/O7/ID4''\<rparr>,
      example_world\<lparr>authid_file := Some (saved ''O7/ID4''),
        sent := [GET (ABNETSYS_BASE @ ''/O7/ID4/NT29?ACC=210''),
                 GET (ABNETSYS_BASE @ ''/O7/ID4'')],
        stdout := [Table [''Title'', ''Due date'', ''Remaining'']
                     [(''El Buscon'', \<lparr>year = 2024, month = 2, day = 1\<rparr>, ''22 day(s)'')]]\<rparr>)"
    by (simp add: new_client_def example_world_fields)
  have few: "row_error dashes_row = Some IndexError"
    by (rule malformed_row_raises [of new_client _ "?self ''O7/ID4''" "?w ''O7/ID4''"
        "?res ''O7/ID4'' ''<loose>''" "loans_table [loose_row]",
        OF session_check_ID4, THEN conjunct2, THEN conjunct2, THEN conjunct2, THEN conjunct2,
        THEN conjunct1, rule_format])
      (simp_all add: example_world_fields example_portal_def example_parser_def dashes_row_facts)
  have no_text: "row_error linked_row = Some AttributeError"
    by (rule malformed_row_raises [of new_client _ "?self ''O7/ID4''" "?w ''O7/ID4''"
        "?res ''O7/ID4'' ''<loose>''" "loans_table [loose_row]",
        OF session_check_ID4, THEN conjunct2, THEN conjunct2, THEN conjunct2, THEN conjunct1,
        rule_format, of _ "td ''5''" "td ''B5''"
          "Element ''td'' [] None [Element ''a'' [(''href'', ''/B5'')] (Some ''La Regenta'') []]"
          "td ''31-02-2024''" "[]"])
      (simp_all add: example_world_fields example_portal_def example_parser_def linked_row_def)
  have "row_error distant_row = date_cell_error (str_strip ''01/01/99999999999'')"
    by (rule malformed_row_raises [of new_client _ "?self ''O7/ID4''" "?w ''O7/ID4''"
        "?res ''O7/ID4'' ''<loose>''" "loans_table [loose_row]",
        OF session_check_ID4, THEN conjunct2, THEN conjunct2, THEN conjunct2, THEN conjunct2,
        THEN conjunct2, THEN conjunct1, rule_format,
        of _ "td ''7''" "td ''B7''" "td ''Tirant''" "td ''01/01/99999999999''" "[]" "''Tirant''"])
      (simp_all add: example_world_fields example_portal_def example_parser_def distant_row_def
        td_def)
  moreover have "date_cell_error (str_strip ''01/01/99999999999'') = Some OverflowError"
    by code_simp
  ultimately have distant: "row_error distant_row = Some OverflowError" by simp
  have short: "row_error (Element ''tr'' [] None [td ''8'', td ''B8'']) = Some IndexError"
    using malformed_row_raises [of new_client _ "?self ''O7/ID4''" "?w ''O7/ID4''"
        "?res ''O7/ID4'' ''<loose>''" "loans_table [loose_row]",
        OF session_check_ID4, THEN conjunct2, THEN conjunct2, THEN conjunct1, rule_format,
        of "Element ''tr'' [] None [td ''8'', td ''B8'']"]
    by (simp add: example_world_fields example_portal_def example_parser_def short_row_def
        short_row_error_def)
  have good: "row_error quijote_row = None"
    by (rule malformed_row_raises [of new_client _ "?self ''O7/ID4''" "?w ''O7/ID4''"
        "?res ''O7/ID4'' ''<loose>''" "loans_table [loose_row]",
        OF session_check_ID4, THEN conjunct2, THEN conjunct2, THEN conjunct2, THEN conjunct2,
        THEN conjunct2, THEN conjunct2, THEN conjunct2, rule_format])
      (simp_all add: example_world_fields example_portal_def example_parser_def example_loans)
  from dashes linked february loose few no_text distant short good show ?thesis
    by (simp add: new_client_def example_world_fields)
qed

text \<open>
  C3 as stated fails: the row with \<^verbatim>\<open>31-02-2024\<close> ends \<^verbatim>\<open>list\<close> with a plain \<^verbatim>\<open>IndexError\<close>,
  and a fourth cell \<^verbatim>\<open>1/2/2024/x\<close>, which is no date \<^verbatim>\<open>DD/MM/YYYY\<close>, is read as the first of
  February and printed.
\<close>

theorem dashes_raise_and_loose_date_passes:
  "list_loans new_client (example_world\<lparr>authid_file := Some (saved ''O7/ID3'')\<rparr>) =
     (Inl IndexError,
           example_world\<lparr>authid_file := Some (saved ''O7/ID3''),
             sent := [GET (ABNETSYS_BASE @ ''/O7/ID3/NT29?ACC=210''),
                      GET (ABNETSYS_BASE @ ''/O7/ID3'')]\<rparr>) \<and>
   list_loans new_client (example_world\<lparr>authid_file := Some (saved ''O7/ID4'')\<rparr>) =
     (Inr \<lparr>creds = [(''auth_id'', JString ''O7/ID4''), (''user_id'', JString ''jane'')],
                base = ABNETSYS_BASE @ ''/O7/ID4''\<rparr>,
           example_world\<lparr>authid_file := Some (saved ''O7/ID4''),
             sent := [GET (ABNETSYS_BASE @ ''/O7/ID4/NT29?ACC=210''),
                      GET (ABNETSYS_BASE @ ''/O7/ID4'')],
             stdout := [Table [''Title'', ''Due date'', ''Remaining'']
                          [(''El Buscon'', \<lparr>year = 2024, month = 2, day = 1\<rparr>, ''22 day(s)'')]]\<rparr>) \<and>
   ddmmyyyy ''1/2/2024/x'' = None"
proof -
  have dashes: "loan_rows \<lparr>year = 2024, month = 1, day = 10\<rparr>
      (drop 1 (xpath_rows (loans_table [quijote_row, dashes_row, celestina_row]))) = Inl IndexError"
    by (simp add: example_loans_rows example_rows_found quijote_row_printed dashes_row_raises
        and_then_def)
  have loose: "loan_rows \<lparr>year = 2024, month = 1, day = 10\<rparr>
      (drop 1 (xpath_rows (loans_table [loose_row]))) =
      Inr [(''El Buscon'', \<lparr>year = 2024, month = 2, day = 1\<rparr>, ''22 day(s)'')]"
    by (simp add: example_loans_rows example_rows_found loose_row_printed and_then_def)
  have "list_loans new_client (example_world\<lparr>authid_file := Some (saved ''O7/ID3'')\<rparr>) =
     (Inl IndexError,
           example_world\<lparr>authid_file := Some (saved ''O7/ID3''),
             sent := [GET (ABNETSYS_BASE @ ''/O7/ID3/NT29?ACC=210''),
                      GET (ABNETSYS_BASE @ ''/O7/ID3'')]\<rparr>)"
    using list_loans_page [OF session_check_ID3,
        of "\<lparr>res_text = ''<dashes>'', res_url = ABNETSYS_BASE @ ''/O7/ID3/NT29?ACC=210''\<rparr>"
           "loans_table [quijote_row, dashes_row, celestina_row]"] dashes
    by (simp add: example_world_fields example_portal_def example_parser_def)
  moreover
  have "list_loans new_client (example_world\<lparr>authid_file := Some (saved ''O7/ID4'')\<rparr>) =
     (Inr \<lparr>creds = [(''auth_id'', JString ''O7/ID4''), (''user_id'', JString ''jane'')],
                base = ABNETSYS_BASE @ ''/O7/ID4''\<rparr>,
           example_world\<lparr>authid_file := Some (saved ''O7/ID4''),
             sent := [GET (ABNETSYS_BASE @ ''/O7/ID4/NT29?ACC=210''),
                      GET (ABNETSYS_BASE @ ''/O7/ID4'')],
             stdout := [Table [''Title'', ''Due date'', ''Remaining'']
                          [(''El Buscon'', \<lparr>year = 2024, month = 2, day = 1\<rparr>, ''22 day(s)'')]]\<rparr>)"
    using list_loans_page [OF session_check_ID4,
        of "\<lparr>res_text = ''<loose>'', res_url = ABNETSYS_BASE @ ''/O7/ID4/NT29?ACC=210''\<rparr>"
           "loans_table [loose_row]"] loose
    by (simp add: example_world_fields example_portal_def example_parser_def new_client_def)
  moreover have "ddmmyyyy ''1/2/2024/x'' = None" by simp
  ultimately show ?thesis by simp
qed

end
